theory Spec2Isabelle
  imports Complex_Main
begin

section \<open>Python values\<close>

text \<open>
  A Python \<open>str\<close> is a sequence of Unicode code points. The aggregate strings of an
  application use the placeholder U+2660 (black spade suit), which is no 8-bit character, so a
  \<open>str\<close> that may hold it is a list of code points; \<open>ascii\<close> embeds an ASCII literal.
  Strings that the code only ever compares with ASCII literals (\<open>status\<close>,
  \<open>data_status\<close>) are kept as \<open>string\<close>.

  A \<open>Decimal\<close> quantity of hours is a rational number (every \<open>Decimal\<close> is one); the
  section on decimal arithmetic below gives the two roundings of the code: the rounding of an
  arithmetic result to the 28 significant digits of the default context, and the quantisation
  to two places of a \<open>DecimalField\<close> column when a row is written. Timestamps and durations
  (\<open>datetime\<close>, \<open>timedelta\<close>) are integer numbers of microseconds, a \<open>date\<close> is its
  ordinal day number and a \<open>time\<close> the number of microseconds since midnight.
\<close>

type_synonym pystr = "nat list"

definition ascii :: "string \<Rightarrow> pystr" where
  "ascii s = map of_char s"

definition SPADE :: pystr where
  "SPADE = [9824]"



datatype py_error =
    ValueError
  | TypeError
  | AttributeError
  | DoesNotExist
  | DatabaseError
  | Http404
  | PermissionDenied pystr

section \<open>Decimal arithmetic (Python's decimal module, Django's DecimalField)\<close>

text \<open>
  Rounding to the nearest integer, a tie going to the even neighbour: \<open>ROUND_HALF_EVEN\<close>,
  the rounding of Python's default context.
\<close>

definition round_half_even :: "rat \<Rightarrow> int" where
  "round_half_even y =
     (let f = \<lfloor>y\<rfloor>; d = y - of_int f
      in if d < 1 / 2 then f else if d > 1 / 2 then f + 1 else if even f then f else f + 1)"

text \<open>
  What a column \<open>DecimalField(max_digits=10, decimal_places=2)\<close> stores of a value:
  Django passes it through \<open>Decimal.quantize(Decimal('0.01'))\<close> on the way to the database.
  All the \<open>Decimal\<close> columns of \<open>QuotaGroup\<close> and \<open>QuotaTimeTransaction\<close> are declared so.
  The bound \<open>max_digits\<close> (values of magnitude \<open>10 ^ 8\<close> and more are refused) is not
  modelled. \<open>two_places\<close> holds of the values that a column stores unchanged. The column
  \<open>time_spent\<close> of an application is written as the code computes it, which is rounded to
  two places already (\<open>round2\<close> below).
\<close>

definition quantize2 :: "rat \<Rightarrow> rat" where
  "quantize2 x = of_int (round_half_even (x * 100)) / 100"

definition two_places :: "rat \<Rightarrow> bool" where
  "two_places x \<longleftrightarrow> quantize2 x = x"

text \<open>
  The context rounding of \<open>Decimal\<close> arithmetic: the exact result is rounded to 28
  significant digits (\<open>getcontext().prec\<close>), half to even. \<open>digits10 n\<close> is the number of
  decimal digits of a positive integer, \<open>adjusted x\<close> the exponent of the leading digit of
  \<open>x\<close> (\<open>Decimal.adjusted\<close>), and \<open>decimal_add\<close>, \<open>decimal_div\<close> are \<open>+\<close> and
  \<open>/\<close> on two \<open>Decimal\<close> values.
\<close>

function digits10 :: "int \<Rightarrow> nat" where
  "digits10 n = (if n < 10 then 1 else Suc (digits10 (n div 10)))"
  by pat_completeness auto
termination by (relation "measure nat") auto

declare digits10.simps [simp del]

definition pow10 :: "int \<Rightarrow> rat" where
  "pow10 e = (if 0 \<le> e then 10 ^ nat e else 1 / 10 ^ nat (- e))"

definition adjusted :: "rat \<Rightarrow> int" where
  "adjusted x =
     (let a = \<bar>x\<bar> in
      if 1 \<le> a then int (digits10 \<lfloor>a\<rfloor>) - 1
      else let d = int (digits10 \<lfloor>1 / a\<rfloor>)
           in if 1 / a = pow10 (d - 1) then - (d - 1) else - d)"

definition decimal_round :: "rat \<Rightarrow> rat" where
  "decimal_round x =
     (if x = 0 then 0
      else let s = pow10 (adjusted x - 27) in of_int (round_half_even (x / s)) * s)"

definition decimal_add :: "rat \<Rightarrow> rat \<Rightarrow> rat" where
  "decimal_add x y = decimal_round (x + y)"

definition decimal_div :: "rat \<Rightarrow> rat \<Rightarrow> rat" where
  "decimal_div x y = decimal_round (x / y)"

section \<open>Probe processing status (probe/models.py, Probe.ProcStatus)\<close>

definition NULL :: pystr where "NULL = ascii ''''"
definition TRASH :: pystr where "TRASH = ascii ''x''"
definition SC_NR :: pystr where "SC_NR = ascii ''<''"
definition SC_R :: pystr where "SC_R = ascii ''.''"
definition RE_R :: pystr where "RE_R = ascii ''!''"
definition FA_R :: pystr where "FA_R = ascii ''@''"
definition SC_RS :: pystr where "SC_RS = ascii ''>''"
definition PW_NR :: pystr where "PW_NR = ascii ''(''"
definition PW_R :: pystr where "PW_R = ascii '';''"
definition PW_RS :: pystr where "PW_RS = ascii '')''"
definition EI_C :: pystr where "EI_C = ascii ''+''"
definition EI_O :: pystr where "EI_O = ascii ''#''"
definition C_REJ :: pystr where "C_REJ = ascii ''-''"
definition NC :: pystr where "NC = ascii ''~''"
definition LP :: pystr where "LP = ascii ''l''"

text \<open>
  \<open>proc_status\<close> is a nullable \<open>CharField\<close>: the argument of the three class methods is a
  \<open>str\<close> or \<open>None\<close>. A \<open>match\<close> statement with value patterns compares with \<open>==\<close>, first
  match wins, and \<open>case _\<close> keeps the argument.
\<close>

definition get_reduced_value :: "pystr option \<Rightarrow> pystr option" where
  "get_reduced_value status =
     (if status = Some SC_NR then Some SC_R
      else if status = Some PW_NR then Some PW_R
      else if status = Some RE_R then Some SC_R
      else status)"

definition get_posted_value :: "pystr option \<Rightarrow> pystr option" where
  "get_posted_value status =
     (if status = Some SC_R then Some SC_RS
      else if status = Some PW_R then Some PW_RS
      else status)"

definition need_to_post :: "pystr option \<Rightarrow> bool" where
  "need_to_post status =
     (if status = Some SC_R then True
      else if status = Some PW_R then True
      else False)"

section \<open>Data model\<close>

text \<open>
  A nullable date or time attribute of an application holds \<open>None\<close>, a \<open>date\<close>/\<open>time\<close>
  object, or (before the row is reloaded) an ISO string; \<open>compute_time_spent\<close> accepts all
  three. \<open>truthy\<close> is Python's truth value of such an attribute: \<open>None\<close> and the empty
  string are false, every date and every time is true.
\<close>

datatype 'a field_value = Null | Text string | Value 'a

definition truthy :: "'a field_value \<Rightarrow> bool" where
  "truthy v = (case v of Null \<Rightarrow> False | Text s \<Rightarrow> s \<noteq> [] | Value x \<Rightarrow> True)"

text \<open>A \<open>Decimal\<close> whose digits matter for \<open>str\<close>: coefficient and exponent.\<close>

type_synonym decimal = "int \<times> int"

record quota_group =
  qg_id :: nat
  main :: bool
  update_time_on_period :: bool
  is_active :: bool
  period_time :: "rat option"
  max_time :: "rat option"
  current_time :: rat
  quota_reset_time :: rat
  last_reset :: int

record laboratory =
  lab_id :: nat
  quota_group :: "nat option"

record diff_device =
  dev_id :: nat
  time_cons_night_experiment :: "rat option"

record custom_user =
  user_id :: nat
  is_authenticated :: bool
  is_active_operator :: bool
  last_name :: pystr
  first_name :: pystr
  patronymic :: "pystr option"
  user_laboratory :: nat

record quota_time_transaction =
  txn_user :: nat
  quota_group_donor :: nat
  quota_group_acceptor :: nat
  time_transfer :: rat
  datetime_stamp :: int

record probe =
  probe_id :: nat
  probe_application :: "nat option"
  number :: nat
  proc_status :: "pystr option"
  smpl_type :: "pystr option"
  data_quantity :: "pystr option"
  dmin :: "decimal option"

text \<open>
  The attributes of an \<open>Application\<close> that the quota, priority, status and lock code reads
  or writes. \<open>priv_current_time\<close> and \<open>priv_prev_status\<close> are the instance attributes
  \<open>_current_time\<close> and \<open>_prev_status\<close> that \<open>__init__\<close> sets; they are no columns.
\<close>

record application =
  pk :: "nat option"
  application_code :: string
  status :: string
  prev_status :: "string option"
  data_status :: string
  prev_data_status :: string
  time_spent :: rat
  deadline :: "int option"
  asap_priority :: bool
  quota_compensation :: "int option"
  lab :: nat
  diffractometer :: nat
  experiment_start_date :: "int field_value"
  experiment_start :: "nat field_value"
  experiment_end :: "nat field_value"
  experiment_end_date :: "int field_value"
  probe_count :: nat
  proc_status_application :: pystr
  smpl_type_application :: pystr
  data_quantity_application :: pystr
  dmin_application :: pystr
  locked_by :: "nat option"
  locked_at :: "int option"
  priv_current_time :: rat
  priv_prev_status :: string

datatype app_field =
    F_status | F_prev_status | F_data_status | F_prev_data_status | F_time_spent
  | F_deadline | F_asap_priority | F_quota_compensation | F_lab | F_diffractometer
  | F_experiment_start_date | F_experiment_start | F_experiment_end | F_experiment_end_date
  | F_probe_count | F_proc_status_application | F_smpl_type_application
  | F_data_quantity_application | F_dmin_application | F_locked_by | F_locked_at

datatype email =
    Application_completed_email nat
  | Application_rejected_email nat
  | Data_published_email nat

text \<open>
  The state outside a request: the tables (lists of rows, each with its primary key) and the
  queue of e-mail tasks handed to the task queue.
\<close>

record world =
  quota_groups :: "quota_group list"
  laboratories :: "laboratory list"
  diff_devices :: "diff_device list"
  users :: "custom_user list"
  applications :: "application list"
  probes :: "probe list"
  transactions :: "quota_time_transaction list"
  outbox :: "email list"

text \<open>
  What the code takes from the Python runtime. Float arithmetic is read as exact arithmetic
  on rationals, and \<open>round2\<close> stands for \<open>round(x, 2)\<close> on a float (followed, in
  \<open>compute_time_spent\<close>, by the conversion to \<open>Decimal\<close>); it is a parameter, as are
  \<open>date.fromisoformat\<close> and \<open>time.fromisoformat\<close> (\<open>None\<close> where they raise
  \<open>ValueError\<close>), \<open>str\<close> of a \<open>Decimal\<close>, and the reading of \<open>timezone.now()\<close>.
\<close>

record runtime =
  round2 :: "rat \<Rightarrow> rat"
  date_fromisoformat :: "string \<Rightarrow> int option"
  time_fromisoformat :: "string \<Rightarrow> nat option"
  str_decimal :: "decimal \<Rightarrow> pystr"
  now :: int

text \<open>
  A piece of code that may raise and may change the world: the world it leaves is returned
  in both cases, since an exception does not undo the rows written before it.
\<close>

type_synonym 'a action = "world \<Rightarrow> (py_error + 'a) \<times> world"

definition and_then :: "'a action \<Rightarrow> ('a \<Rightarrow> 'b action) \<Rightarrow> 'b action" where
  "and_then m f w = (case m w of (Inl e, w') \<Rightarrow> (Inl e, w') | (Inr x, w') \<Rightarrow> f x w')"

subsection \<open>Tables\<close>

definition get_by :: "('r \<Rightarrow> 'k) \<Rightarrow> 'k \<Rightarrow> 'r list \<Rightarrow> 'r option" where
  "get_by key i t = find (\<lambda>r. key r = i) t"

definition put_by :: "('r \<Rightarrow> 'k) \<Rightarrow> 'r \<Rightarrow> 'r list \<Rightarrow> 'r list" where
  "put_by key r t =
     (if get_by key (key r) t = None then t @ [r]
      else map (\<lambda>x. if key x = key r then r else x) t)"

section \<open>Quota ledger (quotagroup/models.py, labs/models.py)\<close>

text \<open>
  \<open>QuotaGroup.save()\<close>: Django's \<open>Model.save\<close>, which writes the whole row, each of the
  four \<open>DecimalField\<close> columns quantised to two places. The object in memory keeps its
  values.
\<close>

definition quota_group_row :: "quota_group \<Rightarrow> quota_group" where
  "quota_group_row g =
     g\<lparr>period_time := map_option quantize2 (period_time g),
       max_time := map_option quantize2 (max_time g),
       current_time := quantize2 (current_time g),
       quota_reset_time := quantize2 (quota_reset_time g)\<rparr>"

definition save_quota_group :: "quota_group \<Rightarrow> world \<Rightarrow> world" where
  "save_quota_group g w = w\<lparr>quota_groups := put_by qg_id (quota_group_row g) (quota_groups w)\<rparr>"

text \<open>
  The methods of \<open>QuotaGroup\<close> work on the object in memory and save it: they take the
  object and the world and return the object as it is afterwards and the world.
\<close>

definition reset_quota :: "int \<Rightarrow> quota_group \<Rightarrow> world \<Rightarrow> quota_group \<times> world" where
  "reset_quota t self w =
     (case period_time self of
        None \<Rightarrow> (self, w)
      | Some p \<Rightarrow>
          if p = - 1 then (self, w)
          else
            let new_time = current_time self + p;
                new_time = (case max_time self of
                              None \<Rightarrow> new_time
                            | Some m \<Rightarrow> if new_time > m then m else new_time);
                self = self\<lparr>current_time := new_time, quota_reset_time := new_time,
                             last_reset := t\<rparr>
            in (self, save_quota_group self w))"

text \<open>
  \<open>if time:\<close> is false for a zero \<open>Decimal\<close>. The first component is the return value.
  The object keeps the exact sum (the context rounding of \<open>+=\<close> touches a sum of more than
  28 significant digits only); the row holds it quantised to two places.
\<close>

definition add_time :: "rat \<Rightarrow> quota_group \<Rightarrow> world \<Rightarrow> rat option \<times> quota_group \<times> world" where
  "add_time time self w =
     (if time \<noteq> 0 then
        let self = self\<lparr>current_time := current_time self + time\<rparr>
        in (Some time, self, save_quota_group self w)
      else (None, self, w))"

definition subtract_time :: "rat \<Rightarrow> quota_group \<Rightarrow> world \<Rightarrow> rat option \<times> quota_group \<times> world" where
  "subtract_time time self w = add_time (- time) self w"

text \<open>
  \<open>Laboratory.consume_time\<close>. \<open>self.quota_group\<close> follows the foreign key: the object is
  the row of the group as it is in the world.
\<close>

definition consume_time :: "laboratory \<Rightarrow> rat \<Rightarrow> unit action" where
  "consume_time self hours w =
     (case quota_group self of
        None \<Rightarrow> (Inr (), w)
      | Some gid \<Rightarrow>
          (case get_by qg_id gid (quota_groups w) of
             None \<Rightarrow> (Inl DoesNotExist, w)
           | Some g \<Rightarrow>
               if period_time g \<in> {None, Some (- 1)} then (Inr (), w)
               else (Inr (), save_quota_group (g\<lparr>current_time := current_time g - hours\<rparr>) w)))"

definition get_available_time :: "laboratory \<Rightarrow> rat action" where
  "get_available_time self w =
     (case quota_group self of
        None \<Rightarrow> (Inr 999999, w)
      | Some gid \<Rightarrow>
          (case get_by qg_id gid (quota_groups w) of
             None \<Rightarrow> (Inl DoesNotExist, w)
           | Some g \<Rightarrow>
               if period_time g = None then (Inr 999999, w)
               else if period_time g = Some (- 1) then (Inr 999999, w)
               else (Inr (current_time g), w)))"

section \<open>Priority (application/models.py, Application.priority)\<close>

text \<open>
  \<open>time_left.days\<close> and \<open>time_left.seconds\<close> of a positive \<open>timedelta\<close>; its microseconds
  are not used. The second argument is the reading of \<open>timezone.now()\<close>.
\<close>

definition priority :: "(rat \<Rightarrow> rat) \<Rightarrow> int \<Rightarrow> application \<Rightarrow> rat" where
  "priority rnd2 t self =
     (if asap_priority self then 100
      else case deadline self of
        None \<Rightarrow> 0
      | Some d \<Rightarrow>
          let time_left = d - t in
          if time_left \<le> 0 then 101
          else
            let days = time_left div 86400000000;
                seconds = (time_left mod 86400000000) div 1000000;
                days_left = of_int days + of_int seconds / 86400
            in if days_left > 14 then 0
               else min 100 (rnd2 (100 * (1 - days_left / 14))))"

section \<open>Time spent (application/models.py, Application.compute_time_spent)\<close>

definition coerce :: "(string \<Rightarrow> 'a option) \<Rightarrow> 'a field_value \<Rightarrow> py_error + 'a" where
  "coerce fromisoformat v =
     (case v of
        Text s \<Rightarrow> (case fromisoformat s of None \<Rightarrow> Inl ValueError | Some x \<Rightarrow> Inr x)
      | Value x \<Rightarrow> Inr x
      | Null \<Rightarrow> Inl TypeError)"

definition combine :: "int \<Rightarrow> nat \<Rightarrow> int" where
  "combine d t = d * 86400000000 + int t"

text \<open>
  The diffractometer is read through the foreign key. Its \<open>time_cons_night_experiment\<close> is a
  nullable \<open>DecimalField\<close>, and \<open>float(None)\<close> raises \<open>TypeError\<close>; \<open>quota_compensation\<close> is
  a \<open>DurationField\<close> (\<open>if qc:\<close> is false for \<open>None\<close> and for a zero \<open>timedelta\<close>).
\<close>

definition compute_time_spent ::
  "runtime \<Rightarrow> world \<Rightarrow> application \<Rightarrow> int field_value \<Rightarrow> nat field_value \<Rightarrow>
   int field_value \<Rightarrow> nat field_value \<Rightarrow> py_error + rat option" where
  "compute_time_spent rt w self sd st ed et =
     (if \<not> (truthy sd \<and> truthy st \<and> truthy ed \<and> truthy et) then Inr None
      else
        case coerce (date_fromisoformat rt) sd of Inl e \<Rightarrow> Inl e | Inr sd \<Rightarrow>
        case coerce (date_fromisoformat rt) ed of Inl e \<Rightarrow> Inl e | Inr ed \<Rightarrow>
        case coerce (time_fromisoformat rt) st of Inl e \<Rightarrow> Inl e | Inr st \<Rightarrow>
        case coerce (time_fromisoformat rt) et of Inl e \<Rightarrow> Inl e | Inr et \<Rightarrow>
        if sd \<noteq> ed then
          (case get_by dev_id (diffractometer self) (diff_devices w) of
             None \<Rightarrow> Inl DoesNotExist
           | Some dev \<Rightarrow>
               (case time_cons_night_experiment dev of
                  None \<Rightarrow> Inl TypeError
                | Some hours \<Rightarrow> Inr (Some (round2 rt hours))))
        else
          let start_dt = combine sd st;
              end_dt = combine ed et;
              end_dt = (if end_dt < start_dt then end_dt + 86400000000 else end_dt);
              delta = end_dt - start_dt;
              delta = (case quota_compensation self of
                         None \<Rightarrow> delta
                       | Some qc \<Rightarrow> if qc \<noteq> 0 then delta + qc else delta);
              total_hours = of_int delta / 3600000000
          in Inr (Some (round2 rt total_hours)))"

section \<open>Saving an application (application/models.py, application/signals.py)\<close>

text \<open>\<open>if self.pk:\<close> is false for \<open>None\<close> and for 0.\<close>

definition has_pk :: "application \<Rightarrow> bool" where
  "has_pk a = (case pk a of None \<Rightarrow> False | Some k \<Rightarrow> k \<noteq> 0)"

text \<open>\<open>Application.__init__\<close>, run on every object built from a row.\<close>

definition init :: "application \<Rightarrow> application" where
  "init a = a\<lparr>priv_current_time := time_spent a, priv_prev_status := status a\<rparr>"

text \<open>\<open>Application.objects.get(pk=k)\<close>; \<open>None\<close> stands for \<open>Application.DoesNotExist\<close>.\<close>

definition objects_get :: "nat \<Rightarrow> world \<Rightarrow> application option" where
  "objects_get k w = map_option init (get_by pk (Some k) (applications w))"

fun copy_field :: "app_field \<Rightarrow> application \<Rightarrow> application \<Rightarrow> application" where
  "copy_field F_status src dst = dst\<lparr>status := status src\<rparr>"
| "copy_field F_prev_status src dst = dst\<lparr>prev_status := prev_status src\<rparr>"
| "copy_field F_data_status src dst = dst\<lparr>data_status := data_status src\<rparr>"
| "copy_field F_prev_data_status src dst = dst\<lparr>prev_data_status := prev_data_status src\<rparr>"
| "copy_field F_time_spent src dst = dst\<lparr>time_spent := time_spent src\<rparr>"
| "copy_field F_deadline src dst = dst\<lparr>deadline := deadline src\<rparr>"
| "copy_field F_asap_priority src dst = dst\<lparr>asap_priority := asap_priority src\<rparr>"
| "copy_field F_quota_compensation src dst = dst\<lparr>quota_compensation := quota_compensation src\<rparr>"
| "copy_field F_lab src dst = dst\<lparr>lab := lab src\<rparr>"
| "copy_field F_diffractometer src dst = dst\<lparr>diffractometer := diffractometer src\<rparr>"
| "copy_field F_experiment_start_date src dst =
     dst\<lparr>experiment_start_date := experiment_start_date src\<rparr>"
| "copy_field F_experiment_start src dst = dst\<lparr>experiment_start := experiment_start src\<rparr>"
| "copy_field F_experiment_end src dst = dst\<lparr>experiment_end := experiment_end src\<rparr>"
| "copy_field F_experiment_end_date src dst =
     dst\<lparr>experiment_end_date := experiment_end_date src\<rparr>"
| "copy_field F_probe_count src dst = dst\<lparr>probe_count := probe_count src\<rparr>"
| "copy_field F_proc_status_application src dst =
     dst\<lparr>proc_status_application := proc_status_application src\<rparr>"
| "copy_field F_smpl_type_application src dst =
     dst\<lparr>smpl_type_application := smpl_type_application src\<rparr>"
| "copy_field F_data_quantity_application src dst =
     dst\<lparr>data_quantity_application := data_quantity_application src\<rparr>"
| "copy_field F_dmin_application src dst = dst\<lparr>dmin_application := dmin_application src\<rparr>"
| "copy_field F_locked_by src dst = dst\<lparr>locked_by := locked_by src\<rparr>"
| "copy_field F_locked_at src dst = dst\<lparr>locked_at := locked_at src\<rparr>"

definition next_pk :: "application list \<Rightarrow> nat" where
  "next_pk t = Suc (fold max (map (\<lambda>r. case pk r of None \<Rightarrow> 0 | Some k \<Rightarrow> k) t) 0)"

text \<open>
  The write of Django's \<open>Model.save\<close>. Without a primary key the row is inserted under a
  fresh key (and \<open>update_fields\<close> is refused); with one, a full save updates the row or
  inserts it, and a save with \<open>update_fields\<close> writes those columns of the existing row and
  raises \<open>DatabaseError\<close> when there is none.
\<close>

definition write_row :: "app_field list option \<Rightarrow> application \<Rightarrow> application action" where
  "write_row update_fields instance w =
     (case pk instance of
        None \<Rightarrow>
          (case update_fields of
             Some fs \<Rightarrow> (Inl ValueError, w)
           | None \<Rightarrow>
               let instance = instance\<lparr>pk := Some (next_pk (applications w))\<rparr>
               in (Inr instance, w\<lparr>applications := applications w @ [instance]\<rparr>))
      | Some k \<Rightarrow>
          (case update_fields of
             None \<Rightarrow> (Inr instance, w\<lparr>applications := put_by pk instance (applications w)\<rparr>)
           | Some fs \<Rightarrow>
               (case get_by pk (Some k) (applications w) of
                  None \<Rightarrow> (Inl DatabaseError, w)
                | Some row \<Rightarrow>
                    (Inr instance,
                     w\<lparr>applications :=
                         put_by pk (fold (\<lambda>f r. copy_field f instance r) fs row)
                           (applications w)\<rparr>))))"

definition send :: "email \<Rightarrow> world \<Rightarrow> world" where
  "send e w = w\<lparr>outbox := outbox w @ [e]\<rparr>"

text \<open>
  The receivers of application/signals.py are connected to the signals of \<open>Application\<close>.

  The \<open>pre_save\<close> receiver. \<open>instance.previous_status\<close> is the attribute \<open>_prev_status\<close>.
  \<open>plot_quota_time_signal()\<close>, called after each e-mail, redraws a cached plot and writes
  nothing of the world.
\<close>

definition application_status_changed :: "application \<Rightarrow> world \<Rightarrow> world" where
  "application_status_changed instance w =
     (if status instance = ''completed'' then
        (case pk instance of
           None \<Rightarrow> w
         | Some k \<Rightarrow>
             if k \<noteq> 0 then
               (if priv_prev_status instance \<noteq> ''completed''
                then send (Application_completed_email k) w else w)
             else w)
      else if status instance = ''rejected'' then
        (case pk instance of
           None \<Rightarrow> w
         | Some k \<Rightarrow>
             if k \<noteq> 0 then
               (if priv_prev_status instance \<noteq> ''rejected''
                then send (Application_rejected_email k) w else w)
             else w)
      else w)"

text \<open>quotagroup/views.py: the refresh predicate and the refresh.\<close>

definition check_if_period_needs_refresh :: "world \<Rightarrow> bool" where
  "check_if_period_needs_refresh w =
     (let groups_not_needing_refresh =
            filter (\<lambda>g. main g \<and> (current_time g \<ge> 0 \<or> period_time g = Some (- 1) \<or> is_active g))
              (quota_groups w)
      in if groups_not_needing_refresh = [] then True
         else
           let labs = filter (\<lambda>l. case quota_group l of
                                     None \<Rightarrow> False
                                   | Some gid \<Rightarrow> gid \<in> set (map qg_id groups_not_needing_refresh))
                        (laboratories w);
               n = length (filter (\<lambda>a. lab a \<in> set (map lab_id labs) \<and> status a = ''submitted'')
                             (applications w))
           in n = 0)"

definition refresh_period_time :: "int \<Rightarrow> world \<Rightarrow> world" where
  "refresh_period_time t w =
     fold (\<lambda>qg w. snd (reset_quota t qg w)) (filter update_time_on_period (quota_groups w)) w"

text \<open>
  The first \<open>post_save\<close> receiver. \<open>old_instance\<close> is read after the write, and its
  \<open>previous_status\<close> is the status of the row it was built from.
\<close>

definition handle_application_time :: "int \<Rightarrow> application \<Rightarrow> world \<Rightarrow> world" where
  "handle_application_time t instance w =
     (case pk instance of
        None \<Rightarrow> w
      | Some k \<Rightarrow>
          if k = 0 then w
          else
            (case objects_get k w of
               None \<Rightarrow> w
             | Some old_instance \<Rightarrow>
                 if priv_prev_status old_instance = ''submitted'' \<and> status instance \<noteq> ''submitted''
                 then (if check_if_period_needs_refresh w then refresh_period_time t w else w)
                 else w))"

text \<open>The second \<open>post_save\<close> receiver.\<close>

definition application_data_status_changed :: "application \<Rightarrow> world \<Rightarrow> world" where
  "application_data_status_changed instance w =
     (if data_status instance = ''DATA_SENT'' then
        (case pk instance of
           None \<Rightarrow> w
         | Some k \<Rightarrow>
             if k \<noteq> 0 then
               (if prev_data_status instance \<noteq> ''DATA_SENT''
                then send (Data_published_email k) w else w)
             else w)
      else w)"

text \<open>
  Django's \<open>Model.save\<close> on an application (\<open>super().save(...)\<close> in the source): nothing at
  all for an empty \<open>update_fields\<close>; otherwise the \<open>pre_save\<close> receiver, the write, and the
  \<open>post_save\<close> receivers in the order they are connected. The signals are sent for a save
  with \<open>update_fields\<close> as for a full one.
\<close>

definition model_save :: "runtime \<Rightarrow> app_field list option \<Rightarrow> application \<Rightarrow> application action" where
  "model_save rt update_fields instance w =
     (if update_fields = Some [] then (Inr instance, w)
      else
        and_then (write_row update_fields instance)
          (\<lambda>instance w.
             (Inr instance,
              application_data_status_changed instance
                (handle_application_time (now rt) instance w)))
          (application_status_changed instance w))"

definition safe_str :: "pystr option \<Rightarrow> pystr" where
  "safe_str v = (case v of None \<Rightarrow> SPADE | Some s \<Rightarrow> if s = [] then SPADE else s)"

text \<open>A \<open>Decimal\<close> is false when it is zero.\<close>

definition safe_str_decimal :: "(decimal \<Rightarrow> pystr) \<Rightarrow> decimal option \<Rightarrow> pystr" where
  "safe_str_decimal str v =
     (case v of None \<Rightarrow> SPADE | Some d \<Rightarrow> if fst d = 0 then SPADE else str d)"

text \<open>
  \<open>self.probes.order_by('number')\<close>: the probes of the application, sorted by \<open>number\<close>
  (probes with equal numbers in table order). The related manager of an object without
  primary key raises \<open>ValueError\<close>.
\<close>

definition probes_by_number :: "nat \<Rightarrow> world \<Rightarrow> probe list" where
  "probes_by_number k w =
     sort_key number (filter (\<lambda>p. probe_application p = Some k) (probes w))"

definition update_aggregated_fields :: "runtime \<Rightarrow> application \<Rightarrow> application action" where
  "update_aggregated_fields rt self w =
     (case pk self of
        None \<Rightarrow> (Inl ValueError, w)
      | Some k \<Rightarrow>
          let ps = probes_by_number k w;
              self = self\<lparr>probe_count := length ps\<rparr>;
              self = self\<lparr>proc_status_application := concat (map (\<lambda>p. safe_str (proc_status p)) ps)\<rparr>;
              self = self\<lparr>smpl_type_application := concat (map (\<lambda>p. safe_str (smpl_type p)) ps)\<rparr>;
              self = self\<lparr>data_quantity_application :=
                             concat (map (\<lambda>p. safe_str (data_quantity p)) ps)\<rparr>;
              self = self\<lparr>dmin_application :=
                             concat (map (\<lambda>p. safe_str_decimal (str_decimal rt) (dmin p)) ps)\<rparr>
          in model_save rt
               (Some [F_proc_status_application, F_smpl_type_application,
                      F_data_quantity_application, F_dmin_application, F_probe_count])
               self w)"

text \<open>
  Lines 499 to 507 of \<open>Application.save\<close>: the recomputation of \<open>time_spent\<close> and the debit
  of the laboratory's quota. \<open>if time_spent_compute:\<close> is false for \<open>None\<close> and for a zero
  \<open>Decimal\<close>, \<open>if self._current_time:\<close> for a zero \<open>Decimal\<close>.
\<close>

definition update_time :: "runtime \<Rightarrow> application \<Rightarrow> application action" where
  "update_time rt self w =
     (case compute_time_spent rt w self (experiment_start_date self) (experiment_start self)
             (experiment_end_date self) (experiment_end self) of
        Inl e \<Rightarrow> (Inl e, w)
      | Inr None \<Rightarrow> (Inr self, w)
      | Inr (Some time_spent_compute) \<Rightarrow>
          if time_spent_compute = 0 then (Inr self, w)
          else
            (case get_by lab_id (lab self) (laboratories w) of
               None \<Rightarrow> (Inl DoesNotExist, w)
             | Some l \<Rightarrow>
                 and_then
                   (consume_time l
                      (if priv_current_time self \<noteq> 0
                       then time_spent_compute - priv_current_time self
                       else time_spent_compute))
                   (\<lambda>u w. (Inr (self\<lparr>time_spent := time_spent_compute\<rparr>), w))
                   w))"

text \<open>
  \<open>Application.save\<close>, in two definitions. \<open>track_previous\<close> is its first block (lines
  496 to 514): for an object with a primary key, the recomputation of the time (skipped when
  \<open>update_fields\<close> is among the keywords; \<open>update_fields = None\<close> is a call without it)
  and the snapshot of the row's status and data status, \<open>prev_status = None\<close> when the row
  is gone or the object has no key. Only \<open>Application.DoesNotExist\<close> is caught; every other
  exception leaves \<open>save\<close>. \<open>save\<close> goes on with \<open>super().save\<close>, the refresh of
  \<open>_prev_status\<close> and the rebuild of the aggregates of an application created as
  completed.
\<close>

definition track_previous :: "runtime \<Rightarrow> app_field list option \<Rightarrow> application \<Rightarrow> application action" where
  "track_previous rt update_fields self w =
     (case pk self of
        None \<Rightarrow> (Inr (self\<lparr>prev_status := None\<rparr>), w)
      | Some k \<Rightarrow>
          if k = 0 then (Inr (self\<lparr>prev_status := None\<rparr>), w)
          else
            and_then
              (if update_fields = None then update_time rt self else (\<lambda>w. (Inr self, w)))
              (\<lambda>self w.
                 (case objects_get k w of
                    Some old_instance \<Rightarrow>
                      (Inr (self\<lparr>prev_data_status := data_status old_instance,
                                  prev_status := Some (status old_instance)\<rparr>), w)
                  | None \<Rightarrow> (Inr (self\<lparr>prev_status := None\<rparr>), w)))
              w)"

definition save :: "runtime \<Rightarrow> app_field list option \<Rightarrow> application \<Rightarrow> application action" where
  "save rt update_fields self w =
     and_then (track_previous rt update_fields self)
       (\<lambda>self w.
          let created = \<not> has_pk self in
          and_then (model_save rt update_fields self)
            (\<lambda>self w.
               let self = self\<lparr>priv_prev_status := status self\<rparr> in
               if created \<and> status self = ''completed''
               then update_aggregated_fields rt self w
               else (Inr self, w))
            w)
       w"

text \<open>
  The end of \<open>ApplicationProcessView.form_valid\<close> (application/views.py, lines 961 and
  963): \<open>self.object.save()\<close> followed by \<open>self.object.update_aggregated_fields()\<close>.
\<close>

definition save_and_rebuild :: "runtime \<Rightarrow> application \<Rightarrow> application action" where
  "save_and_rebuild rt object w =
     and_then (save rt None object) (\<lambda>object. update_aggregated_fields rt object) w"

section \<open>Operator lock (application/views.py, ApplicationProcessView.dispatch)\<close>






section \<open>Quota transfer (quotagroup/forms.py, quotagroup/views.py)\<close>

text \<open>
  The posted form: \<open>None\<close> is a field that is missing or not a number. The request has
  passed the access mixin of the view.
\<close>

record transfer_post =
  post_hours :: "int option"
  post_minutes :: "int option"
  post_quota_group_acceptor :: "nat option"

datatype form_error = Field_error string | Insufficient_time | Same_group

text \<open>The choices of the acceptor field, set in \<open>__init__\<close>.\<close>

definition acceptor_queryset :: "quota_group \<Rightarrow> world \<Rightarrow> quota_group list" where
  "acceptor_queryset user_quota w =
     filter (\<lambda>g. is_active g \<and> qg_id g \<noteq> qg_id user_quota) (quota_groups w)"

text \<open>\<open>cleaned_data.get('hours') or 0\<close> for a field that may have failed its validation.\<close>

definition cleaned_hours :: "transfer_post \<Rightarrow> int" where
  "cleaned_hours post = (case post_hours post of None \<Rightarrow> 0 | Some h \<Rightarrow> if 0 \<le> h then h else 0)"

definition cleaned_minutes :: "transfer_post \<Rightarrow> int" where
  "cleaned_minutes post =
     (case post_minutes post of None \<Rightarrow> 0 | Some m \<Rightarrow> if 0 \<le> m \<and> m \<le> 59 then m else 0)"

text \<open>
  \<open>Decimal(hours) + Decimal(minutes) / Decimal(60)\<close>: the conversion of an \<open>int\<close> is
  exact, the quotient and the sum are rounded to 28 significant digits.
\<close>

definition requested_time :: "transfer_post \<Rightarrow> rat" where
  "requested_time post =
     decimal_add (of_int (cleaned_hours post)) (decimal_div (of_int (cleaned_minutes post)) 60)"

text \<open>
  Field validation followed by \<open>QuotaTimeTransactionForm.clean\<close>: the errors of the form,
  the computed \<open>time_transfer\<close> and the cleaned acceptor.
\<close>

definition clean :: "quota_group \<Rightarrow> transfer_post \<Rightarrow> world \<Rightarrow> form_error list \<times> rat \<times> quota_group option" where
  "clean donor_quota post w =
     (let hours_errors = (case post_hours post of
                            None \<Rightarrow> [Field_error ''hours'']
                          | Some h \<Rightarrow> if 0 \<le> h then [] else [Field_error ''hours'']);
          minutes_errors = (case post_minutes post of
                              None \<Rightarrow> [Field_error ''minutes'']
                            | Some m \<Rightarrow> if 0 \<le> m \<and> m \<le> 59 then [] else [Field_error ''minutes'']);
          quota_group_acceptor =
            (case post_quota_group_acceptor post of
               None \<Rightarrow> None
             | Some gid \<Rightarrow> get_by qg_id gid (acceptor_queryset donor_quota w));
          acceptor_errors = (case quota_group_acceptor of
                               None \<Rightarrow> [Field_error ''quota_group_acceptor'']
                             | Some a \<Rightarrow> []);
          time_transfer = requested_time post;
          clean_errors =
            (case quota_group_acceptor of
               None \<Rightarrow> []
             | Some a \<Rightarrow>
                 (if current_time donor_quota < time_transfer then [Insufficient_time] else [])
                 @ (if qg_id donor_quota = qg_id a then [Same_group] else []))
      in (hours_errors @ minutes_errors @ acceptor_errors @ clean_errors,
          time_transfer, quota_group_acceptor))"

text \<open>
  \<open>QuotaTimeTransferCreateView.form_valid\<close>: the donor object is debited and saved, the
  acceptor object (the row read when the form was validated) is credited and saved, and the
  transaction row is inserted, its \<open>time_transfer\<close> column quantised to two places.
\<close>

definition form_valid ::
  "int \<Rightarrow> custom_user \<Rightarrow> quota_group \<Rightarrow> quota_group \<Rightarrow> rat \<Rightarrow> world \<Rightarrow> world" where
  "form_valid t user donor acceptor time w =
     (let w = snd (snd (subtract_time time donor w));
          w = snd (snd (add_time time acceptor w))
      in w\<lparr>transactions := transactions w @
             [\<lparr>txn_user = user_id user, quota_group_donor = qg_id donor,
               quota_group_acceptor = qg_id acceptor, time_transfer = quantize2 time,
               datetime_stamp = t\<rparr>]\<rparr>)"

text \<open>
  A posted transfer request. The result is the list of form errors: empty when the transfer
  was carried out. The donor is the quota group of the user's laboratory; a laboratory
  without quota group makes \<open>__init__\<close> of the form raise \<open>AttributeError\<close>.
\<close>

definition post_transfer :: "int \<Rightarrow> custom_user \<Rightarrow> transfer_post \<Rightarrow> form_error list action" where
  "post_transfer t user post w =
     (case get_by lab_id (user_laboratory user) (laboratories w) of
        None \<Rightarrow> (Inl DoesNotExist, w)
      | Some l \<Rightarrow>
          (case quota_group l of
             None \<Rightarrow> (Inl AttributeError, w)
           | Some gid \<Rightarrow>
               (case get_by qg_id gid (quota_groups w) of
                  None \<Rightarrow> (Inl DoesNotExist, w)
                | Some donor \<Rightarrow>
                    (case clean donor post w of
                       (errors, time, None) \<Rightarrow> (Inr errors, w)
                     | (errors, time, Some acceptor) \<Rightarrow>
                         if errors = [] then (Inr [], form_valid t user donor acceptor time w)
                         else (Inr errors, w)))))"

section \<open>Gated actions (notification/models.py)\<close>

text \<open>
  The three lists of a relation hold the keys of its pending, accepted and rejected
  notifications. A handler is modelled by whether it returns (\<open>True\<close>) or raises.
\<close>

record notification_relations =
  logic_dependence :: string
  rel_is_active :: bool
  pending_notifications :: "nat list"
  accepted_notifications :: "nat list"
  rejected_notifications :: "nat list"

record 'k notification_issue =
  issue_method :: string
  kwargs :: 'k
  issue_notifications :: "notification_relations list"

datatype log_record = Warning_unknown_action | Error_not_implemented | Exception_executing

fun gates_pass :: "notification_relations list \<Rightarrow> bool" where
  "gates_pass [] = True"
| "gates_pass (notification_relation # rest) =
     (if logic_dependence notification_relation = ''&'' then
        (let has_rejected = (rejected_notifications notification_relation \<noteq> []);
             has_pending = (pending_notifications notification_relation \<noteq> [])
         in if has_rejected \<or> has_pending then False else gates_pass rest)
      else if logic_dependence notification_relation = ''|'' then
        (let has_accepted = (accepted_notifications notification_relation \<noteq> [])
         in if \<not> has_accepted then False else gates_pass rest)
      else gates_pass rest)"

definition is_action_allowed :: "'k notification_issue \<Rightarrow> bool" where
  "is_action_allowed self = gates_pass (filter rel_is_active (issue_notifications self))"

definition method_mapping :: "string \<Rightarrow> string option" where
  "method_mapping m =
     (if m = ''chgsp'' then Some ''dummymethod1''
      else if m = ''chglb'' then Some ''dummymethod2''
      else if m = ''dummymethod3'' then Some ''dummymethod3''
      else None)"

text \<open>
  The part of \<open>try_action\<close> after the gate: the lookup of the method name, \<open>getattr\<close> on the
  issue (a parameter: the attribute of that name, if there is a callable one), and the call.
  The result is the return value and what was logged.
\<close>

definition run_mapped_method ::
  "(string \<Rightarrow> ('k \<Rightarrow> bool) option) \<Rightarrow> 'k notification_issue \<Rightarrow> bool \<times> log_record list" where
  "run_mapped_method getattr self =
     (case method_mapping (issue_method self) of
        None \<Rightarrow> (False, [Warning_unknown_action])
      | Some method_name \<Rightarrow>
          (case getattr method_name of
             None \<Rightarrow> (False, [Error_not_implemented])
           | Some method \<Rightarrow>
               if method (kwargs self) then (True, []) else (False, [Exception_executing])))"

definition try_action ::
  "(string \<Rightarrow> ('k \<Rightarrow> bool) option) \<Rightarrow> 'k notification_issue \<Rightarrow> bool \<times> log_record list" where
  "try_action getattr self =
     (if \<not> is_action_allowed self then (False, [])
      else run_mapped_method getattr self)"

text \<open>
  The attribute lookup of the source, for the names that \<open>method_mapping\<close> gives (no other
  name is looked up): the class \<open>NotificationIssue\<close> defines no method and no field called
  \<open>dummymethod1\<close>, \<open>dummymethod2\<close> or \<open>dummymethod3\<close>, and nothing in the repository
  adds one, so \<open>getattr(self, method_name, None)\<close> is \<open>None\<close>.
\<close>

definition notification_issue_getattr :: "string \<Rightarrow> ('k \<Rightarrow> bool) option" where
  "notification_issue_getattr method_name = None"

section \<open>Example data\<close>

text \<open>
  A small world for the concrete instances below: a metered quota group (10 hours left, 5
  per period, at most 12), an unlimited one and an exempt one, one laboratory for each, a
  diffractometer that bills 8 hours for a night experiment, two operators, and one submitted
  application of laboratory 1.
\<close>

definition metered_group :: quota_group where
  "metered_group =
     \<lparr>qg_id = 1, main = True, update_time_on_period = True, is_active = True,
      period_time = Some 5, max_time = Some 12, current_time = 10, quota_reset_time = 10,
      last_reset = 0\<rparr>"

definition unlimited_group :: quota_group where
  "unlimited_group =
     \<lparr>qg_id = 2, main = False, update_time_on_period = False, is_active = True,
      period_time = None, max_time = None, current_time = 0, quota_reset_time = 0,
      last_reset = 0\<rparr>"

definition exempt_group :: quota_group where
  "exempt_group =
     \<lparr>qg_id = 3, main = False, update_time_on_period = False, is_active = True,
      period_time = Some (- 1), max_time = None, current_time = 0, quota_reset_time = 0,
      last_reset = 0\<rparr>"

definition submitted_application :: application where
  "submitted_application =
     \<lparr>pk = Some 1, application_code = ''A1'', status = ''submitted'', prev_status = None,
      data_status = ''NO_DATA'', prev_data_status = [], time_spent = 0, deadline = None,
      asap_priority = False, quota_compensation = None, lab = 1, diffractometer = 1,
      experiment_start_date = Null, experiment_start = Null, experiment_end = Null,
      experiment_end_date = Null, probe_count = 0, proc_status_application = [],
      smpl_type_application = [], data_quantity_application = [], dmin_application = [],
      locked_by = None, locked_at = None, priv_current_time = 0,
      priv_prev_status = ''submitted''\<rparr>"

definition operator_ivanov :: custom_user where
  "operator_ivanov =
     \<lparr>user_id = 1, is_authenticated = True, is_active_operator = True,
      last_name = ascii ''Ivanov'', first_name = ascii ''Ivan'', patronymic = None,
      user_laboratory = 1\<rparr>"

definition operator_petrov :: custom_user where
  "operator_petrov =
     \<lparr>user_id = 2, is_authenticated = True, is_active_operator = True,
      last_name = ascii ''Petrov'', first_name = ascii ''Petr'', patronymic = Some [],
      user_laboratory = 2\<rparr>"

definition example_world :: world where
  "example_world =
     \<lparr>quota_groups = [metered_group, unlimited_group, exempt_group],
      laboratories = [\<lparr>lab_id = 1, quota_group = Some 1\<rparr>, \<lparr>lab_id = 2, quota_group = Some 2\<rparr>,
                      \<lparr>lab_id = 3, quota_group = Some 3\<rparr>],
      diff_devices = [\<lparr>dev_id = 1, time_cons_night_experiment = Some 8\<rparr>],
      users = [operator_ivanov, operator_petrov],
      applications = [submitted_application],
      probes = [],
      transactions = [],
      outbox = []\<rparr>"

text \<open>A runtime whose \<open>round2\<close> rounds half up and whose parsers accept nothing.\<close>

definition example_runtime :: runtime where
  "example_runtime =
     \<lparr>round2 = (\<lambda>x. of_int (round (100 * x)) / 100),
      date_fromisoformat = (\<lambda>s. None),
      time_fromisoformat = (\<lambda>s. None),
      str_decimal = (\<lambda>d. []),
      now = 0\<rparr>"

text \<open>
  The submitted application with an experiment from 10:00 to 13:30 on day 100, and the same
  application with 5 hours already recorded and an experiment that ends when it starts.
\<close>

definition timed_application :: application where
  "timed_application =
     submitted_application\<lparr>experiment_start_date := Value 100,
       experiment_start := Value 36000000000, experiment_end_date := Value 100,
       experiment_end := Value 48600000000\<rparr>"

definition zero_length_application :: application where
  "zero_length_application =
     timed_application\<lparr>time_spent := 5, priv_current_time := 5,
       experiment_end := Value 36000000000\<rparr>"

text \<open>
  The application with an experiment from 10:00 to 12:00 and its 2 hours recorded, and the
  world with its row.
\<close>

definition recorded_application :: application where
  "recorded_application =
     timed_application\<lparr>time_spent := 2, priv_current_time := 2,
       experiment_end := Value 43200000000\<rparr>"

definition recorded_world :: world where
  "recorded_world = example_world\<lparr>applications := [recorded_application]\<rparr>"

text \<open>
  Three probes of application 1, stored out of order: number 1 needs reduction, number 2 has
  no values yet, number 3 has been sent.
\<close>

definition example_probes :: "probe list" where
  "example_probes =
     [\<lparr>probe_id = 3, probe_application = Some 1, number = 3, proc_status = Some SC_RS,
       smpl_type = Some (ascii ''PW''), data_quantity = Some (ascii ''POWDER''), dmin = None\<rparr>,
      \<lparr>probe_id = 1, probe_application = Some 1, number = 1, proc_status = Some SC_NR,
       smpl_type = Some (ascii ''MC''), data_quantity = Some (ascii ''F10''), dmin = None\<rparr>,
      \<lparr>probe_id = 2, probe_application = Some 1, number = 2, proc_status = None,
       smpl_type = None, data_quantity = Some [], dmin = None\<rparr>]"

definition probed_world :: world where
  "probed_world = example_world\<lparr>probes := example_probes\<rparr>"

text \<open>A completed application whose data still need reduction, and the world with its row.\<close>

definition reduction_application :: application where
  "reduction_application =
     submitted_application\<lparr>status := ''completed'', data_status := ''NEED_REDUCTION'',
       prev_status := Some ''submitted'', prev_data_status := ''NO_DATA'',
       priv_prev_status := ''completed''\<rparr>"

definition reduction_world :: world where
  "reduction_world = example_world\<lparr>applications := [reduction_application]\<rparr>"



text \<open>An issue whose only relation is inactive (and still has a pending notification).\<close>

definition ungated_issue :: "unit notification_issue" where
  "ungated_issue =
     \<lparr>issue_method = ''chgsp'', kwargs = (),
      issue_notifications =
        [\<lparr>logic_dependence = ''&'', rel_is_active = False, pending_notifications = [1],
          accepted_notifications = [], rejected_notifications = []\<rparr>]\<rparr>"

text \<open>An issue without any relation, its keyword arguments standing for a number.\<close>

definition bare_issue :: "nat \<Rightarrow> nat notification_issue" where
  "bare_issue k = \<lparr>issue_method = ''chgsp'', kwargs = k, issue_notifications = []\<rparr>"

section \<open>Theorems\<close>

subsection \<open>Decimal arithmetic\<close>

lemma round_half_even_of_int [simp]: "round_half_even (of_int n) = n"
  by (simp add: round_half_even_def)

lemma quantize2_hundredths: "quantize2 (of_int n / 100) = of_int n / 100"
  by (simp add: quantize2_def)

lemma two_places_iff: "two_places x \<longleftrightarrow> (\<exists>n. x = of_int n / 100)"
proof
  assume "two_places x"
  then have "x = of_int (round_half_even (x * 100)) / 100"
    by (simp add: two_places_def quantize2_def)
  then show "\<exists>n. x = of_int n / 100" by blast
next
  assume "\<exists>n. x = of_int n / 100"
  then obtain n where "x = of_int n / 100" by blast
  then show "two_places x" unfolding two_places_def by (simp only: quantize2_hundredths)
qed

lemma quantize2_two_places: "two_places x \<Longrightarrow> quantize2 x = x"
  by (simp add: two_places_def)

lemma two_places_quantize2 [simp]: "two_places (quantize2 x)"
  unfolding two_places_iff quantize2_def by blast

lemma two_places_add: "two_places a \<Longrightarrow> two_places b \<Longrightarrow> two_places (a + b)"
proof -
  assume "two_places a" "two_places b"
  then obtain m n where "a = of_int m / 100" "b = of_int n / 100"
    unfolding two_places_iff by blast
  then have "a + b = of_int (m + n) / 100" by (simp add: add_divide_distrib)
  then show ?thesis unfolding two_places_iff by blast
qed

lemma two_places_minus: "two_places a \<Longrightarrow> two_places (- a)"
proof -
  assume "two_places a"
  then obtain m where "a = of_int m / 100" unfolding two_places_iff by blast
  then have "- a = of_int (- m) / 100" by simp
  then show ?thesis unfolding two_places_iff by blast
qed

lemma two_places_diff: "two_places a \<Longrightarrow> two_places b \<Longrightarrow> two_places (a - b)"
  using two_places_add [of a "- b"] two_places_minus [of b] by simp

lemma two_places_of_int [simp]: "two_places (of_int n)"
proof -
  have "(of_int n :: rat) = of_int (n * 100) / 100" by simp
  then show ?thesis unfolding two_places_iff by blast
qed

lemma two_places_numeral [simp]: "two_places (numeral k)" "two_places 0" "two_places 1"
  using two_places_of_int [of "numeral k"] two_places_of_int [of 0] two_places_of_int [of 1]
  by simp_all

lemma quantize2_numeral [simp]:
  "quantize2 (numeral k) = numeral k" "quantize2 0 = 0" "quantize2 1 = 1"
  "quantize2 (- numeral k) = - numeral k" "quantize2 (- 1) = - 1"
  using two_places_minus [of "numeral k"] two_places_minus [of 1]
  by (simp_all add: quantize2_two_places)

text \<open>The quantised value is within half a hundredth of the value.\<close>

lemma round_half_even_near: "\<bar>of_int (round_half_even y) - y\<bar> \<le> 1 / 2"
proof -
  have "of_int \<lfloor>y\<rfloor> \<le> y" "y < of_int \<lfloor>y\<rfloor> + 1" by linarith+
  then show ?thesis by (auto simp: round_half_even_def Let_def)
qed

lemma quantize2_near: "\<bar>quantize2 x - x\<bar> \<le> 1 / 200"
proof -
  define r where "r = of_int (round_half_even (x * 100)) - x * 100"
  have "quantize2 x - x = r / 100"
    by (simp add: r_def quantize2_def diff_divide_distrib)
  then have "\<bar>quantize2 x - x\<bar> = \<bar>r / 100\<bar>" by (simp only:)
  also have "\<dots> = \<bar>r\<bar> / 100" by simp
  finally have "\<bar>quantize2 x - x\<bar> = \<bar>r\<bar> / 100" .
  moreover have "\<bar>r\<bar> \<le> 1 / 2" unfolding r_def by (rule round_half_even_near)
  ultimately show ?thesis by simp
qed

text \<open>
  A value of at most two places and of magnitude below \<open>10 ^ 26\<close> has at most 28
  significant digits: the context rounding leaves it as it is.
\<close>

lemma digits10_pos: "1 \<le> digits10 n"
  by (subst digits10.simps) simp

lemma digits10_le: "n < 10 ^ k \<Longrightarrow> 1 \<le> k \<Longrightarrow> digits10 n \<le> k"
proof (induction k arbitrary: n)
  case 0
  then show ?case by simp
next
  case (Suc k)
  show ?case
  proof (cases "n < 10")
    case True
    then show ?thesis by (subst digits10.simps) simp
  next
    case False
    then have k: "1 \<le> k" using Suc.prems(1) by (cases k) auto
    have "n div 10 < 10 ^ k" using Suc.prems(1) by simp
    then have "digits10 (n div 10) \<le> k" using Suc.IH k by blast
    then show ?thesis using False by (subst digits10.simps) simp
  qed
qed

lemma adjusted_le:
  assumes "\<bar>x\<bar> < 10 ^ 26"
  shows "adjusted x \<le> 25"
proof (cases "1 \<le> \<bar>x\<bar>")
  case True
  have "\<lfloor>\<bar>x\<bar>\<rfloor> < 10 ^ 26"
    using assms by (simp add: floor_less_iff)
  then have "digits10 \<lfloor>\<bar>x\<bar>\<rfloor> \<le> 26" by (rule digits10_le) simp
  then show ?thesis using True by (simp add: adjusted_def Let_def)
next
  case False
  then show ?thesis
    using digits10_pos [of "\<lfloor>1 / \<bar>x\<bar>\<rfloor>"] by (simp add: adjusted_def Let_def)
qed

lemma decimal_round_two_places:
  assumes "two_places x" and "\<bar>x\<bar> < 10 ^ 26"
  shows "decimal_round x = x"
proof (cases "x = 0")
  case True
  then show ?thesis by (simp add: decimal_round_def)
next
  case False
  obtain k where x: "x = of_int k / 100" using assms(1) unfolding two_places_iff by blast
  define j where "j = nat (27 - adjusted x)"
  have j2: "2 \<le> j" using adjusted_le [OF assms(2)] by (simp add: j_def)
  have s: "pow10 (adjusted x - 27) = 1 / 10 ^ j"
    using adjusted_le [OF assms(2)] by (simp add: pow10_def j_def)
  obtain i where i: "j = i + 2" using j2 by (metis add.commute le_Suc_ex)
  have e: "x / (1 / 10 ^ j) = of_int (k * 10 ^ i)"
    by (simp add: x i)
  have "of_int (round_half_even (x / (1 / 10 ^ j))) * (1 / 10 ^ j)
          = (of_int (k * 10 ^ i) :: rat) * (1 / 10 ^ j)"
    unfolding e by (simp only: round_half_even_of_int)
  also have "\<dots> = x" by (simp add: x i)
  finally show ?thesis using False by (simp add: decimal_round_def s Let_def)
qed

lemma qg_id_quota_group_row [simp]: "qg_id (quota_group_row g) = qg_id g"
  by (simp add: quota_group_row_def)

lemma current_time_quota_group_row [simp]:
  "current_time (quota_group_row g) = quantize2 (current_time g)"
  by (simp add: quota_group_row_def)

lemmas proc_status_defs =
  ascii_def NULL_def TRASH_def SC_NR_def SC_R_def RE_R_def FA_R_def SC_RS_def PW_NR_def
  PW_R_def PW_RS_def EI_C_def EI_O_def C_REJ_def NC_def LP_def

text \<open>
  C8. For every probe processing status \<open>x\<close>, reducing twice is the same as reducing once;
  \<open>get_posted_value\<close> leaves every status outside \<open>{SC_R, PW_R}\<close> as it is; and
  \<open>need_to_post\<close> holds exactly for the statuses \<open>SC_R\<close> and \<open>PW_R\<close>.
\<close>

theorem proc_status_transitions:
  "get_reduced_value (get_reduced_value x) = get_reduced_value x
   \<and> (x \<notin> {Some SC_R, Some PW_R} \<longrightarrow> get_posted_value x = x)
   \<and> (need_to_post x \<longleftrightarrow> x \<in> {Some SC_R, Some PW_R})"
  by (simp add: get_reduced_value_def get_posted_value_def need_to_post_def proc_status_defs)

theorem proc_status_transitions_witness:
  "get_reduced_value (get_reduced_value (Some RE_R)) = get_reduced_value (Some RE_R)
   \<and> get_reduced_value (Some RE_R) = Some SC_R
   \<and> Some RE_R \<notin> {Some SC_R, Some PW_R}
   \<and> get_posted_value (Some RE_R) = Some RE_R
   \<and> \<not> need_to_post (Some RE_R)"
  using proc_status_transitions [of "Some RE_R"]
  by (simp add: get_reduced_value_def proc_status_defs)

subsection \<open>Priority\<close>

text \<open>
  C1, as stated, fails: the claim is that an overdue application has priority 101 even when
  \<open>asap_priority\<close> is set. The ASAP test comes first in \<open>priority\<close>: an overdue ASAP
  application (deadline at 5, read at 10) has priority 100.
\<close>

theorem priority_overdue_asap_counterexample:
  "asap_priority (submitted_application\<lparr>deadline := Some 5, asap_priority := True\<rparr>)
   \<and> deadline (submitted_application\<lparr>deadline := Some 5, asap_priority := True\<rparr>) = Some 5
   \<and> (5::int) \<le> 10
   \<and> priority (round2 example_runtime) 10
        (submitted_application\<lparr>deadline := Some 5, asap_priority := True\<rparr>) = 100
   \<and> priority (round2 example_runtime) 10
        (submitted_application\<lparr>deadline := Some 5, asap_priority := True\<rparr>) \<noteq> 101"
  by (simp add: priority_def submitted_application_def)

text \<open>
  C1, amended. For every application and every reading \<open>t\<close> of the clock, when the deadline
  is set and not after \<open>t\<close> (exactly \<open>t\<close> included), the priority is 101 if
  \<open>asap_priority\<close> is false and 100 if it is true: ASAP takes precedence over overdue.
\<close>

theorem priority_overdue:
  "deadline self = Some d \<Longrightarrow> d \<le> t \<Longrightarrow>
   priority rnd2 t self = (if asap_priority self then 100 else 101)"
  by (simp add: priority_def)

theorem priority_overdue_witness:
  "deadline (submitted_application\<lparr>deadline := Some 10\<rparr>) = Some 10
   \<and> (10::int) \<le> 10
   \<and> \<not> asap_priority (submitted_application\<lparr>deadline := Some 10\<rparr>)
   \<and> priority (round2 example_runtime) 10 (submitted_application\<lparr>deadline := Some 10\<rparr>) = 101"
  using priority_overdue [of "submitted_application\<lparr>deadline := Some 10\<rparr>" 10 10
      "round2 example_runtime"]
  by (simp add: submitted_application_def)

subsection \<open>Quota groups without a metered period\<close>




subsection \<open>Time spent\<close>

text \<open>
  C3. \<open>compute_time_spent\<close> on \<open>(sd, st, ed, et)\<close>: when one of the four is missing
  (\<open>None\<close> or empty) it returns \<open>None\<close>, and the recomputation in \<open>save\<close> then leaves the
  application, its \<open>time_spent\<close> included, and the world as they are. When all four are
  present, with dates \<open>d1\<close>, \<open>d2\<close> and times \<open>t1\<close>, \<open>t2\<close>: if the dates differ, the result is
  the diffractometer's \<open>time_cons_night_experiment\<close> rounded to two decimals, whatever the
  times; if they are equal, it is the time from start to end, the end moved to the next day
  when it is before the start, plus \<open>quota_compensation\<close> when there is one, in hours,
  rounded to two decimals.
\<close>

theorem compute_time_spent_cases:
  "(\<not> (truthy sd \<and> truthy st \<and> truthy ed \<and> truthy et) \<longrightarrow>
      compute_time_spent rt w self sd st ed et = Inr None)
   \<and> (\<not> (truthy (experiment_start_date self) \<and> truthy (experiment_start self)
           \<and> truthy (experiment_end_date self) \<and> truthy (experiment_end self)) \<longrightarrow>
      update_time rt self w = (Inr self, w))
   \<and> (truthy sd \<and> truthy st \<and> truthy ed \<and> truthy et
      \<and> coerce (date_fromisoformat rt) sd = Inr d1 \<and> coerce (time_fromisoformat rt) st = Inr t1
      \<and> coerce (date_fromisoformat rt) ed = Inr d2 \<and> coerce (time_fromisoformat rt) et = Inr t2 \<longrightarrow>
        (d1 \<noteq> d2 \<and> get_by dev_id (diffractometer self) (diff_devices w) = Some dev
         \<and> time_cons_night_experiment dev = Some h \<longrightarrow>
           compute_time_spent rt w self sd st ed et = Inr (Some (round2 rt h)))
        \<and> (d1 = d2 \<longrightarrow>
           compute_time_spent rt w self sd st ed et =
             Inr (Some (round2 rt
               (of_int ((if t2 < t1 then int t2 + 86400000000 - int t1 else int t2 - int t1)
                        + (case quota_compensation self of None \<Rightarrow> 0 | Some qc \<Rightarrow> qc))
                / 3600000000)))))"
proof (intro conjI impI)
  assume "\<not> (truthy sd \<and> truthy st \<and> truthy ed \<and> truthy et)"
  then show "compute_time_spent rt w self sd st ed et = Inr None"
    by (simp add: compute_time_spent_def)
next
  assume "\<not> (truthy (experiment_start_date self) \<and> truthy (experiment_start self)
           \<and> truthy (experiment_end_date self) \<and> truthy (experiment_end self))"
  then have "compute_time_spent rt w self (experiment_start_date self) (experiment_start self)
      (experiment_end_date self) (experiment_end self) = Inr None"
    by (simp add: compute_time_spent_def)
  then show "update_time rt self w = (Inr self, w)"
    by (simp add: update_time_def)
next
  assume a: "truthy sd \<and> truthy st \<and> truthy ed \<and> truthy et
      \<and> coerce (date_fromisoformat rt) sd = Inr d1 \<and> coerce (time_fromisoformat rt) st = Inr t1
      \<and> coerce (date_fromisoformat rt) ed = Inr d2 \<and> coerce (time_fromisoformat rt) et = Inr t2"
    and b: "d1 \<noteq> d2 \<and> get_by dev_id (diffractometer self) (diff_devices w) = Some dev
         \<and> time_cons_night_experiment dev = Some h"
  show "compute_time_spent rt w self sd st ed et = Inr (Some (round2 rt h))"
    using a b by (simp add: compute_time_spent_def)
next
  assume a: "truthy sd \<and> truthy st \<and> truthy ed \<and> truthy et
      \<and> coerce (date_fromisoformat rt) sd = Inr d1 \<and> coerce (time_fromisoformat rt) st = Inr t1
      \<and> coerce (date_fromisoformat rt) ed = Inr d2 \<and> coerce (time_fromisoformat rt) et = Inr t2"
    and b: "d1 = d2"
  show "compute_time_spent rt w self sd st ed et =
             Inr (Some (round2 rt
               (of_int ((if t2 < t1 then int t2 + 86400000000 - int t1 else int t2 - int t1)
                        + (case quota_compensation self of None \<Rightarrow> 0 | Some qc \<Rightarrow> qc))
                / 3600000000)))"
    using a b
    by (simp add: compute_time_spent_def combine_def Let_def algebra_simps split: option.split)
qed

text \<open>
  Instances: a missing start date; a night experiment from day 100 to day 101 (8 hours,
  the diffractometer's constant); and a run from 23:00 to 01:00 with the same date and half
  an hour of compensation (2.5 hours).
\<close>

theorem compute_time_spent_cases_witness:
  "compute_time_spent example_runtime example_world submitted_application
     Null (Value 36000000000) (Value 100) (Value 48600000000) = Inr None
   \<and> update_time example_runtime submitted_application example_world
       = (Inr submitted_application, example_world)
   \<and> compute_time_spent example_runtime example_world submitted_application
       (Value 100) (Value 36000000000) (Value 101) (Value 48600000000) = Inr (Some 8)
   \<and> compute_time_spent example_runtime example_world
       (submitted_application\<lparr>quota_compensation := Some 1800000000\<rparr>)
       (Value 100) (Value 82800000000) (Value 100) (Value 3600000000) = Inr (Some (5 / 2))"
  using
    compute_time_spent_cases [where rt = example_runtime and w = example_world
      and self = submitted_application and sd = Null and st = "Value 36000000000"
      and ed = "Value 100" and et = "Value 48600000000"]
    compute_time_spent_cases [where rt = example_runtime and w = example_world
      and self = submitted_application and sd = "Value 100" and st = "Value 36000000000"
      and ed = "Value 101" and et = "Value 48600000000" and ?d1.0 = 100 and ?d2.0 = 101
      and ?t1.0 = 36000000000 and ?t2.0 = 48600000000
      and dev = "\<lparr>dev_id = 1, time_cons_night_experiment = Some 8\<rparr>" and h = 8]
    compute_time_spent_cases [where rt = example_runtime and w = example_world
      and self = "submitted_application\<lparr>quota_compensation := Some 1800000000\<rparr>"
      and sd = "Value 100" and st = "Value 82800000000"
      and ed = "Value 100" and et = "Value 3600000000" and ?d1.0 = 100 and ?d2.0 = 100
      and ?t1.0 = 82800000000 and ?t2.0 = 3600000000]
  by (simp add: truthy_def coerce_def example_runtime_def example_world_def
      submitted_application_def get_by_def)

subsection \<open>Tables and the save pipeline\<close>

lemma get_by_Some_key: "get_by key i t = Some r \<Longrightarrow> key r = i"
  by (induction t) (auto simp: get_by_def split: if_splits)

lemma get_by_put_by_same: "get_by key (key r) (put_by key r t) = Some r"
proof (cases "get_by key (key r) t")
  case None
  then show ?thesis
    by (induction t) (auto simp: get_by_def put_by_def split: if_splits)
next
  case (Some x)
  have "get_by key (key r) (map (\<lambda>x. if key x = key r then r else x) t) = Some r"
    using Some by (induction t) (auto simp: get_by_def split: if_splits)
  with Some show ?thesis by (simp add: put_by_def)
qed

lemma get_by_put_by_other:
  assumes "i \<noteq> key r"
  shows "get_by key i (put_by key r t) = get_by key i t"
proof -
  have app: "get_by key i (t @ [r]) = get_by key i t"
    using assms by (induction t) (auto simp: get_by_def)
  have upd: "get_by key i (map (\<lambda>x. if key x = key r then r else x) t) = get_by key i t"
    using assms by (induction t) (auto simp: get_by_def)
  show ?thesis using app upd by (simp add: put_by_def)
qed

lemma quota_groups_send [simp]: "quota_groups (send e w) = quota_groups w"
  by (simp add: send_def)

lemma applications_send [simp]: "applications (send e w) = applications w"
  by (simp add: send_def)

lemma quota_groups_application_status_changed [simp]:
  "quota_groups (application_status_changed a w) = quota_groups w"
  by (simp add: application_status_changed_def split: option.split)

lemma applications_application_status_changed [simp]:
  "applications (application_status_changed a w) = applications w"
  by (simp add: application_status_changed_def split: option.split)

lemma quota_groups_application_data_status_changed [simp]:
  "quota_groups (application_data_status_changed a w) = quota_groups w"
  by (simp add: application_data_status_changed_def split: option.split)

lemma handle_application_time_same_status:
  "pk a = Some k \<Longrightarrow> get_by pk (Some k) (applications w) = Some row \<Longrightarrow>
   status row = status a \<Longrightarrow> handle_application_time t a w = w"
  by (simp add: handle_application_time_def objects_get_def init_def)

lemma model_save_full:
  assumes "pk a = Some k"
  shows "\<exists>w'. model_save rt None a w = (Inr a, w') \<and> quota_groups w' = quota_groups w"
proof -
  let ?w1 = "application_status_changed a w"
  let ?w2 = "?w1\<lparr>applications := put_by pk a (applications ?w1)\<rparr>"
  have wr: "write_row None a ?w1 = (Inr a, ?w2)"
    using assms by (simp add: write_row_def)
  have "get_by pk (Some k) (applications ?w2) = Some a"
    using get_by_put_by_same [of pk a "applications ?w1"] assms by simp
  then have h: "handle_application_time (now rt) a ?w2 = ?w2"
    using assms handle_application_time_same_status by blast
  show ?thesis
    using wr h by (simp add: model_save_def and_then_def)
qed

lemma update_time_pk:
  "update_time rt a w = (Inr a1, w1) \<Longrightarrow> pk a1 = pk a"
  by (auto simp: update_time_def and_then_def consume_time_def
      split: sum.splits option.splits if_splits prod.splits)

lemma save_full_persisted:
  assumes pk: "pk a = Some k" "k \<noteq> 0"
    and ut: "update_time rt a w = (Inr a1, w1)"
  shows "\<exists>a' w'. save rt None a w = (Inr a', w') \<and> time_spent a' = time_spent a1
           \<and> quota_groups w' = quota_groups w1"
proof -
  have pk1: "pk a1 = Some k" using update_time_pk [OF ut] pk by simp
  obtain a2 where tp: "track_previous rt None a w = (Inr a2, w1)"
    and a2: "pk a2 = Some k" "time_spent a2 = time_spent a1"
    using pk ut pk1
    by (cases "objects_get k w1") (auto simp: track_previous_def and_then_def)
  obtain w' where ms: "model_save rt None a2 w1 = (Inr a2, w')"
    and qg: "quota_groups w' = quota_groups w1"
    using model_save_full [OF a2(1)] by blast
  have "has_pk a2" using a2 pk by (simp add: has_pk_def)
  then have "save rt None a w = (Inr (a2\<lparr>priv_prev_status := status a2\<rparr>), w')"
    using tp ms by (simp add: save_def and_then_def)
  then show ?thesis using a2 qg by simp
qed

subsection \<open>Quota debit on save\<close>

lemma fixture_compute:
  "compute_time_spent example_runtime w zero_length_application
     (experiment_start_date zero_length_application) (experiment_start zero_length_application)
     (experiment_end_date zero_length_application) (experiment_end zero_length_application)
   = Inr (Some 0)"
  by (simp add: compute_time_spent_def zero_length_application_def timed_application_def
      submitted_application_def truthy_def coerce_def combine_def example_runtime_def)

text \<open>
  C4, as stated, fails: the claim is that every full save of a persisted application
  recomputes \<open>time_spent\<close> and debits the quota by the new time minus the recorded one,
  for every pair of values. When the recomputed time is zero the save skips both: with 5
  hours recorded and an experiment of length zero, \<open>time_spent\<close> stays 5 and the group
  keeps its 10 hours, where the claim gives 0 and 15.
\<close>

theorem save_zero_time_counterexample:
  "pk zero_length_application = Some 1
   \<and> map_option time_spent
        (get_by pk (Some 1) (applications (example_world\<lparr>applications := [zero_length_application]\<rparr>)))
       = Some 5
   \<and> compute_time_spent example_runtime (example_world\<lparr>applications := [zero_length_application]\<rparr>)
        zero_length_application
        (experiment_start_date zero_length_application) (experiment_start zero_length_application)
        (experiment_end_date zero_length_application) (experiment_end zero_length_application)
       = Inr (Some 0)
   \<and> \<not> isl (fst (save example_runtime None zero_length_application
                   (example_world\<lparr>applications := [zero_length_application]\<rparr>)))
   \<and> time_spent (projr (fst (save example_runtime None zero_length_application
                   (example_world\<lparr>applications := [zero_length_application]\<rparr>)))) = 5
   \<and> map_option current_time
        (get_by qg_id 1 (quota_groups (snd (save example_runtime None zero_length_application
                   (example_world\<lparr>applications := [zero_length_application]\<rparr>))))) = Some 10
   \<and> (10::rat) - (0 - 5) \<noteq> 10"
proof -
  let ?w = "example_world\<lparr>applications := [zero_length_application]\<rparr>"
  have c: "compute_time_spent example_runtime ?w zero_length_application
        (experiment_start_date zero_length_application) (experiment_start zero_length_application)
        (experiment_end_date zero_length_application) (experiment_end zero_length_application)
       = Inr (Some 0)"
    by (rule fixture_compute)
  then have ut: "update_time example_runtime zero_length_application ?w
      = (Inr zero_length_application, ?w)"
    by (simp add: update_time_def)
  have pk: "pk zero_length_application = Some 1"
    by (simp add: zero_length_application_def timed_application_def submitted_application_def)
  obtain a' w' where s: "save example_runtime None zero_length_application ?w = (Inr a', w')"
    and t: "time_spent a' = time_spent zero_length_application"
    and q: "quota_groups w' = quota_groups ?w"
    using save_full_persisted [OF pk _ ut] by auto
  have ts: "time_spent zero_length_application = 5"
    by (simp add: zero_length_application_def)
  have g: "map_option current_time (get_by qg_id 1 (quota_groups ?w)) = Some 10"
    by (simp add: example_world_def get_by_def metered_group_def)
  have r: "map_option time_spent (get_by pk (Some 1) (applications ?w)) = Some 5"
    by (simp add: get_by_def pk ts)
  show ?thesis using c pk s t q ts g r by simp
qed

text \<open>
  C4, amended. For every persisted application whose object carries the \<open>time_spent\<close> of
  its row as \<open>_current_time\<close> (a freshly loaded object), saved without \<open>update_fields\<close>,
  whose recomputed time \<open>t\<close> is not zero: the save succeeds when
  \<open>Laboratory.consume_time\<close> does, sets \<open>time_spent\<close> to \<open>t\<close>, and changes the quota
  groups exactly as \<open>consume_time\<close> called with \<open>t\<close> minus the recorded \<open>time_spent\<close>
  does: for a metered group, the row's \<open>current_time\<close> becomes the balance minus that
  difference (the delta, not \<open>t\<close>), quantised to two places by the write, which is exactly
  the balance minus the difference when the balance and both times have at most two places.
\<close>

theorem save_debits_delta:
  assumes "pk self = Some k" and "k \<noteq> 0"
    and "get_by pk (Some k) (applications w) = Some old"
    and "priv_current_time self = time_spent old"
    and "compute_time_spent rt w self (experiment_start_date self) (experiment_start self)
           (experiment_end_date self) (experiment_end self) = Inr (Some t)"
    and "t \<noteq> 0"
    and "get_by lab_id (lab self) (laboratories w) = Some l"
    and "fst (consume_time l (t - time_spent old) w) = Inr ()"
  shows "\<exists>self' w'. save rt None self w = (Inr self', w') \<and> time_spent self' = t
           \<and> quota_groups w' = quota_groups (snd (consume_time l (t - time_spent old) w))
           \<and> (\<forall>gid g p. quota_group l = Some gid \<and> get_by qg_id gid (quota_groups w) = Some g
                  \<and> period_time g = Some p \<and> p \<noteq> - 1 \<longrightarrow>
                map_option current_time (get_by qg_id gid (quota_groups w'))
                  = Some (quantize2 (current_time g - (t - time_spent old)))
                \<and> (two_places (current_time g) \<and> two_places t \<and> two_places (time_spent old) \<longrightarrow>
                     map_option current_time (get_by qg_id gid (quota_groups w'))
                       = Some (current_time g - (t - time_spent old))))"
proof -
  let ?d = "t - time_spent old"
  obtain w1 where ct: "consume_time l ?d w = (Inr (), w1)"
    using assms(8) by (cases "consume_time l ?d w") auto
  have d: "(if priv_current_time self \<noteq> 0 then t - priv_current_time self else t) = ?d"
    using assms(4) by simp
  have ut: "update_time rt self w = (Inr (self\<lparr>time_spent := t\<rparr>), w1)"
    using assms(5,6,7) ct by (simp add: update_time_def d and_then_def)
  obtain a' w' where s: "save rt None self w = (Inr a', w')"
    and ts: "time_spent a' = t" and q: "quota_groups w' = quota_groups w1"
    using save_full_persisted [OF assms(1,2) ut] by auto
  have m: "map_option current_time (get_by qg_id gid (quota_groups w1))
             = Some (quantize2 (current_time g - ?d))"
    if "quota_group l = Some gid" "get_by qg_id gid (quota_groups w) = Some g"
       "period_time g = Some p" "p \<noteq> - 1" for gid g p
  proof -
    have k: "qg_id g = gid" using that(2) by (rule get_by_Some_key)
    have "w1 = save_quota_group (g\<lparr>current_time := current_time g - ?d\<rparr>) w"
      using that ct by (simp add: consume_time_def)
    then show ?thesis
      using get_by_put_by_same
        [of qg_id "quota_group_row (g\<lparr>current_time := current_time g - ?d\<rparr>)" "quota_groups w"] k
      by (simp add: save_quota_group_def)
  qed
  have e: "quantize2 (current_time g - ?d) = current_time g - ?d"
    if "two_places (current_time g)" "two_places t" "two_places (time_spent old)" for g
    using that by (intro quantize2_two_places two_places_diff)
  have m2: "map_option current_time (get_by qg_id gid (quota_groups w'))
              = Some (quantize2 (current_time g - ?d))
            \<and> (two_places (current_time g) \<and> two_places t \<and> two_places (time_spent old) \<longrightarrow>
                 map_option current_time (get_by qg_id gid (quota_groups w'))
                   = Some (current_time g - ?d))"
    if "quota_group l = Some gid \<and> get_by qg_id gid (quota_groups w) = Some g
        \<and> period_time g = Some p \<and> p \<noteq> - 1" for gid g p
  proof -
    from that have t: "quota_group l = Some gid" "get_by qg_id gid (quota_groups w) = Some g"
      "period_time g = Some p" "p \<noteq> - 1" by blast+
    have a: "map_option current_time (get_by qg_id gid (quota_groups w'))
               = Some (quantize2 (current_time g - ?d))"
      unfolding q by (rule m [OF t])
    have "map_option current_time (get_by qg_id gid (quota_groups w'))
            = Some (current_time g - ?d)"
      if "two_places (current_time g) \<and> two_places t \<and> two_places (time_spent old)"
      using a e [of g] that by (simp only:)
    with a show ?thesis by blast
  qed
  have q': "quota_groups w' = quota_groups (snd (consume_time l ?d w))" using q ct by simp
  show ?thesis using s ts q' m2 by blast
qed

lemma fixture_halves: "quantize2 (13 / 2) = 13 / 2" "quantize2 (17 / 2) = 17 / 2"
  by code_simp+

text \<open>
  Instances, on the group with 10 hours. The application goes from submitted to completed
  with 3.5 hours computed and none recorded: 6.5 hours are left. The application with 2
  hours recorded has the end of its experiment moved from 12:00 to 13:30: 3.5 hours are
  computed and recorded, and the group is left with 8.5 hours, 10 less the delta of 1.5.
\<close>

theorem save_debits_delta_witness:
  "time_spent (projr (fst (save example_runtime None (timed_application\<lparr>status := ''completed''\<rparr>)
        (example_world\<lparr>applications := [timed_application]\<rparr>)))) = 7 / 2
   \<and> map_option current_time (get_by qg_id 1 (quota_groups example_world)) = Some 10
   \<and> map_option current_time
        (get_by qg_id 1 (quota_groups (snd (save example_runtime None
           (timed_application\<lparr>status := ''completed''\<rparr>)
           (example_world\<lparr>applications := [timed_application]\<rparr>))))) = Some (13 / 2)
   \<and> map_option time_spent (get_by pk (Some 1) (applications recorded_world)) = Some 2
   \<and> priv_current_time (recorded_application\<lparr>experiment_end := Value 48600000000\<rparr>) = 2
   \<and> map_option current_time (get_by qg_id 1 (quota_groups recorded_world)) = Some 10
   \<and> time_spent (projr (fst (save example_runtime None
        (recorded_application\<lparr>experiment_end := Value 48600000000\<rparr>) recorded_world))) = 7 / 2
   \<and> map_option current_time
        (get_by qg_id 1 (quota_groups (snd (save example_runtime None
           (recorded_application\<lparr>experiment_end := Value 48600000000\<rparr>) recorded_world))))
       = Some (17 / 2)"
  using save_debits_delta [where rt = example_runtime
      and self = "timed_application\<lparr>status := ''completed''\<rparr>"
      and w = "example_world\<lparr>applications := [timed_application]\<rparr>"
      and k = 1 and old = timed_application and t = "7 / 2"
      and l = "\<lparr>lab_id = 1, quota_group = Some 1\<rparr>"]
    save_debits_delta [where rt = example_runtime
      and self = "recorded_application\<lparr>experiment_end := Value 48600000000\<rparr>"
      and w = recorded_world
      and k = 1 and old = recorded_application and t = "7 / 2"
      and l = "\<lparr>lab_id = 1, quota_group = Some 1\<rparr>"]
  by (auto simp: timed_application_def submitted_application_def example_world_def
      example_runtime_def get_by_def compute_time_spent_def truthy_def coerce_def combine_def
      consume_time_def metered_group_def recorded_application_def recorded_world_def
      fixture_halves)

subsection \<open>Aggregate rebuild\<close>

lemma applications_reset_quota [simp]: "applications (snd (reset_quota t g w)) = applications w"
  by (simp add: reset_quota_def save_quota_group_def Let_def split: option.split)

lemma outbox_reset_quota [simp]: "outbox (snd (reset_quota t g w)) = outbox w"
  by (simp add: reset_quota_def save_quota_group_def Let_def split: option.split)

lemma applications_fold_reset [simp]:
  "applications (fold (\<lambda>qg w. snd (reset_quota t qg w)) gs w) = applications w"
  by (induction gs arbitrary: w) simp_all

lemma outbox_fold_reset [simp]:
  "outbox (fold (\<lambda>qg w. snd (reset_quota t qg w)) gs w) = outbox w"
  by (induction gs arbitrary: w) simp_all

lemma applications_handle_application_time [simp]:
  "applications (handle_application_time t a w) = applications w"
  by (simp add: handle_application_time_def refresh_period_time_def split: option.split)

lemma outbox_handle_application_time [simp]:
  "outbox (handle_application_time t a w) = outbox w"
  by (simp add: handle_application_time_def refresh_period_time_def split: option.split)

lemma applications_application_data_status_changed [simp]:
  "applications (application_data_status_changed a w) = applications w"
  by (simp add: application_data_status_changed_def split: option.split)

lemma pk_copy_field [simp]: "pk (copy_field f src dst) = pk dst"
  by (cases f) simp_all

lemma pk_fold_copy_field [simp]: "pk (fold (\<lambda>f r. copy_field f src r) fs row) = pk row"
  by (induction fs arbitrary: row) simp_all

lemma model_save_narrow:
  assumes "pk a = Some k" and "get_by pk (Some k) (applications w) = Some row" and "fs \<noteq> []"
  shows "\<exists>w'. model_save rt (Some fs) a w = (Inr a, w')
           \<and> get_by pk (Some k) (applications w')
               = Some (fold (\<lambda>f r. copy_field f a r) fs row)
           \<and> outbox w' = outbox (application_data_status_changed a (application_status_changed a w))"
proof -
  let ?w1 = "application_status_changed a w"
  let ?row = "fold (\<lambda>f r. copy_field f a r) fs row"
  let ?w2 = "?w1\<lparr>applications := put_by pk ?row (applications ?w1)\<rparr>"
  have pkr: "pk row = Some k" using assms(2) by (rule get_by_Some_key)
  have wr: "write_row (Some fs) a ?w1 = (Inr a, ?w2)"
    using assms by (simp add: write_row_def)
  have g: "get_by pk (Some k) (applications ?w2) = Some ?row"
    using get_by_put_by_same [of pk ?row "applications ?w1"] pkr by simp
  have ob: "outbox (application_data_status_changed a (handle_application_time (now rt) a ?w2))
            = outbox (application_data_status_changed a ?w1)"
    by (simp add: application_data_status_changed_def send_def split: option.split)
  show ?thesis
    using wr g ob assms(3) by (simp add: model_save_def and_then_def)
qed

lemma length_safe_str: "(case v of None \<Rightarrow> True | Some s \<Rightarrow> length s \<le> 1) \<Longrightarrow> length (safe_str v) = 1"
  by (cases v) (auto simp: safe_str_def SPADE_def le_Suc_eq)

lemma length_concat_singletons:
  "(\<And>x. x \<in> set xs \<Longrightarrow> length (f x) = 1) \<Longrightarrow> length (concat (map f xs)) = length xs"
  by (induction xs) simp_all

text \<open>
  C5, amended. After every aggregate rebuild of a persisted application, on the object and in
  its row, \<open>probe_count\<close> is the number of its probes and each of the four aggregate
  strings is the concatenation, in \<open>number\<close> order, of one entry per probe: the text of the
  probe's value, or the sentinel U+2660 when the value is falsy. An entry is one character
  where the value is: \<open>proc_status_application\<close> has length \<open>probe_count\<close> whenever every
  \<open>proc_status\<close> is \<open>None\<close>, empty or a single character (as the codes of
  \<open>ProcStatus\<close> are). Three probes with \<open>proc_status\<close> \<open><\<close>, \<open>None\<close>, \<open>>\<close> in
  \<open>number\<close> order give the string \<open><\<close>, U+2660, \<open>>\<close> and \<open>probe_count = 3\<close>.
\<close>

theorem update_aggregated_fields_result:
  assumes "pk self = Some k" and "get_by pk (Some k) (applications w) = Some row"
  shows "\<exists>self' w' row'. update_aggregated_fields rt self w = (Inr self', w')
           \<and> get_by pk (Some k) (applications w') = Some row'
           \<and> sorted (map number (probes_by_number k w))
           \<and> probe_count self' = length (probes_by_number k w)
           \<and> proc_status_application self'
               = concat (map (\<lambda>p. safe_str (proc_status p)) (probes_by_number k w))
           \<and> smpl_type_application self'
               = concat (map (\<lambda>p. safe_str (smpl_type p)) (probes_by_number k w))
           \<and> data_quantity_application self'
               = concat (map (\<lambda>p. safe_str (data_quantity p)) (probes_by_number k w))
           \<and> dmin_application self'
               = concat (map (\<lambda>p. safe_str_decimal (str_decimal rt) (dmin p)) (probes_by_number k w))
           \<and> probe_count row' = probe_count self'
           \<and> proc_status_application row' = proc_status_application self'
           \<and> smpl_type_application row' = smpl_type_application self'
           \<and> data_quantity_application row' = data_quantity_application self'
           \<and> dmin_application row' = dmin_application self'
           \<and> ((\<forall>p \<in> set (probes_by_number k w).
                   case proc_status p of None \<Rightarrow> True | Some s \<Rightarrow> length s \<le> 1) \<longrightarrow>
                length (proc_status_application self') = probe_count self')"
proof -
  let ?ps = "probes_by_number k w"
  let ?a = "self\<lparr>probe_count := length ?ps,
      proc_status_application := concat (map (\<lambda>p. safe_str (proc_status p)) ?ps),
      smpl_type_application := concat (map (\<lambda>p. safe_str (smpl_type p)) ?ps),
      data_quantity_application := concat (map (\<lambda>p. safe_str (data_quantity p)) ?ps),
      dmin_application := concat (map (\<lambda>p. safe_str_decimal (str_decimal rt) (dmin p)) ?ps)\<rparr>"
  let ?fs = "[F_proc_status_application, F_smpl_type_application,
              F_data_quantity_application, F_dmin_application, F_probe_count]"
  have u: "update_aggregated_fields rt self w = model_save rt (Some ?fs) ?a w"
    using assms(1) by (simp add: update_aggregated_fields_def Let_def)
  have "pk ?a = Some k" using assms(1) by simp
  from model_save_narrow [OF this assms(2), of ?fs rt]
  obtain w' where ms: "model_save rt (Some ?fs) ?a w = (Inr ?a, w')"
    and g: "get_by pk (Some k) (applications w') = Some (fold (\<lambda>f r. copy_field f ?a r) ?fs row)"
    by auto
  have s: "sorted (map number ?ps)"
    by (simp add: probes_by_number_def)
  have l: "length (concat (map (\<lambda>p. safe_str (proc_status p)) ?ps)) = length ?ps"
    if "\<forall>p \<in> set ?ps. case proc_status p of None \<Rightarrow> True | Some s \<Rightarrow> length s \<le> 1"
    using that by (intro length_concat_singletons length_safe_str) simp
  show ?thesis
    using u ms g s l by simp
qed

lemma example_probes_by_number:
  "probes_by_number 1 probed_world = [example_probes ! 1, example_probes ! 2, example_probes ! 0]"
  by (simp add: probes_by_number_def probed_world_def example_world_def example_probes_def)

lemma probed_world_row:
  "pk submitted_application = Some 1"
  "get_by pk (Some 1) (applications probed_world) = Some submitted_application"
  by (simp_all add: probed_world_def example_world_def get_by_def submitted_application_def)

lemmas save_defs =
  save_def track_previous_def update_time_def compute_time_spent_def model_save_def
  write_row_def and_then_def application_status_changed_def handle_application_time_def
  application_data_status_changed_def objects_get_def init_def has_pk_def send_def
  get_by_def put_by_def truthy_def update_aggregated_fields_def probes_by_number_def Let_def

text \<open>
  C5, as stated, fails: the claim is that each of the four aggregate strings has one
  character per probe and so the length \<open>probe_count\<close>. The codes of \<open>smpl_type\<close> have
  two letters (those of \<open>data_quantity\<close> up to eleven): with three probes of sample types
  \<open>MC\<close>, \<open>None\<close>, \<open>PW\<close> the aggregate \<open>smpl_type_application\<close> has five characters.
\<close>

theorem aggregate_length_counterexample:
  "probe_count (projr (fst (update_aggregated_fields example_runtime submitted_application
      probed_world))) = 3
   \<and> smpl_type_application (projr (fst (update_aggregated_fields example_runtime
        submitted_application probed_world))) = ascii ''MC'' @ SPADE @ ascii ''PW''
   \<and> length (smpl_type_application (projr (fst (update_aggregated_fields example_runtime
        submitted_application probed_world)))) = 5
   \<and> length (smpl_type_application (projr (fst (update_aggregated_fields example_runtime
        submitted_application probed_world))))
       \<noteq> probe_count (projr (fst (update_aggregated_fields example_runtime
           submitted_application probed_world)))"
  by (simp add: save_defs example_probes_def safe_str_def SPADE_def ascii_def
      submitted_application_def probed_world_def example_world_def)

text \<open>Instance: the three example probes.\<close>

theorem update_aggregated_fields_result_witness:
  "proc_status_application (projr (fst (update_aggregated_fields example_runtime
      submitted_application probed_world))) = ascii ''<'' @ SPADE @ ascii ''>''
   \<and> probe_count (projr (fst (update_aggregated_fields example_runtime
      submitted_application probed_world))) = 3
   \<and> length (proc_status_application (projr (fst (update_aggregated_fields example_runtime
      submitted_application probed_world)))) = 3
   \<and> map number (probes_by_number 1 probed_world) = [1, 2, 3]"
  using update_aggregated_fields_result [OF probed_world_row, of example_runtime]
  unfolding example_probes_by_number
  by (auto simp: example_probes_def safe_str_def SPADE_def proc_status_defs)

subsection \<open>E-mails on status edges\<close>

lemma sent_save:
  "save example_runtime None (reduction_application\<lparr>data_status := ''DATA_SENT''\<rparr>)
     reduction_world
   = (Inr (reduction_application\<lparr>data_status := ''DATA_SENT'',
             prev_data_status := ''NEED_REDUCTION'', prev_status := Some ''completed''\<rparr>),
      reduction_world\<lparr>applications :=
          [reduction_application\<lparr>data_status := ''DATA_SENT'',
             prev_data_status := ''NEED_REDUCTION'', prev_status := Some ''completed''\<rparr>],
        outbox := [Data_published_email 1]\<rparr>)"
  by (simp add: save_defs reduction_application_def reduction_world_def
      submitted_application_def example_world_def)

text \<open>
  C9. The claim is that an e-mail is sent only on a save on which the field changed. The
  \<open>post_save\<close> receiver compares \<open>data_status\<close> with the attribute
  \<open>prev_data_status\<close>, which only \<open>Application.save\<close> refreshes, while
  \<open>update_aggregated_fields\<close> saves through \<open>super().save\<close>. In the processing view an
  application whose data status goes from \<open>NEED_REDUCTION\<close> to \<open>DATA_SENT\<close> is saved
  (one e-mail, on the edge) and then rebuilt: the second save leaves \<open>data_status\<close> as it
  is and sends the data-published e-mail again.
\<close>

theorem data_published_email_refired:
  "data_status reduction_application = ''NEED_REDUCTION''
   \<and> outbox reduction_world = []
   \<and> outbox (snd (save example_runtime None
        (reduction_application\<lparr>data_status := ''DATA_SENT''\<rparr>) reduction_world))
       = [Data_published_email 1]
   \<and> data_status (projr (fst (save example_runtime None
        (reduction_application\<lparr>data_status := ''DATA_SENT''\<rparr>) reduction_world)))
       = ''DATA_SENT''
   \<and> map_option data_status (get_by pk (Some 1) (applications (snd (save example_runtime None
        (reduction_application\<lparr>data_status := ''DATA_SENT''\<rparr>) reduction_world))))
       = Some ''DATA_SENT''
   \<and> data_status (projr (fst (save_and_rebuild example_runtime
        (reduction_application\<lparr>data_status := ''DATA_SENT''\<rparr>) reduction_world)))
       = ''DATA_SENT''
   \<and> outbox (snd (save_and_rebuild example_runtime
        (reduction_application\<lparr>data_status := ''DATA_SENT''\<rparr>) reduction_world))
       = [Data_published_email 1, Data_published_email 1]"
  unfolding save_and_rebuild_def and_then_def sent_save
  by (simp add: save_defs reduction_application_def reduction_world_def
      submitted_application_def example_world_def)

subsection \<open>Operator lock\<close>






subsection \<open>Quota transfer\<close>

lemma get_by_Some_mem: "get_by key i t = Some r \<Longrightarrow> r \<in> set t"
  by (induction t) (auto simp: get_by_def split: if_splits)

lemma get_by_filter_distinct:
  "distinct (map key t) \<Longrightarrow> get_by key i (filter Q t) = Some r \<Longrightarrow> get_by key i t = Some r"
proof (induction t)
  case Nil
  then show ?case by (simp add: get_by_def)
next
  case (Cons x xs)
  show ?case
  proof (cases "key x = i")
    case True
    show ?thesis
    proof (cases "Q x")
      case True
      with \<open>key x = i\<close> Cons.prems show ?thesis by (simp add: get_by_def)
    next
      case False
      with Cons.prems have "get_by key i (filter Q xs) = Some r" by simp
      then have "r \<in> set xs" "key r = i"
        using get_by_Some_mem [of key i "filter Q xs" r] get_by_Some_key [of key i "filter Q xs" r]
        by auto
      then have "key x \<in> key ` set xs" using \<open>key x = i\<close> by force
      with Cons.prems(1) show ?thesis by simp
    qed
  next
    case False
    with Cons show ?thesis by (auto simp: get_by_def split: if_splits)
  qed
qed

lemma form_valid_balances:
  assumes "qg_id donor \<noteq> qg_id acceptor"
    and "get_by qg_id (qg_id donor) (quota_groups w) = Some donor"
    and "get_by qg_id (qg_id acceptor) (quota_groups w) = Some acceptor"
  shows "map_option current_time (get_by qg_id (qg_id donor)
            (quota_groups (form_valid t user donor acceptor time w)))
          = Some (if time = 0 then current_time donor else quantize2 (current_time donor - time))"
    and "map_option current_time (get_by qg_id (qg_id acceptor)
            (quota_groups (form_valid t user donor acceptor time w)))
          = Some (if time = 0 then current_time acceptor
                  else quantize2 (current_time acceptor + time))"
    and "transactions (form_valid t user donor acceptor time w) = transactions w @
             [\<lparr>txn_user = user_id user, quota_group_donor = qg_id donor,
               quota_group_acceptor = qg_id acceptor, time_transfer = quantize2 time,
               datetime_stamp = t\<rparr>]"
proof -
  let ?d = "quota_group_row (donor\<lparr>current_time := current_time donor - time\<rparr>)"
  let ?a = "quota_group_row (acceptor\<lparr>current_time := current_time acceptor + time\<rparr>)"
  have d1: "get_by qg_id (qg_id donor) (put_by qg_id ?a (put_by qg_id ?d (quota_groups w))) = Some ?d"
    using get_by_put_by_other [of "qg_id donor" qg_id ?a "put_by qg_id ?d (quota_groups w)"]
      get_by_put_by_same [of qg_id ?d "quota_groups w"] assms(1) by simp
  have a1: "get_by qg_id (qg_id acceptor) (put_by qg_id ?a (put_by qg_id ?d (quota_groups w))) = Some ?a"
    using get_by_put_by_same [of qg_id ?a "put_by qg_id ?d (quota_groups w)"] by simp
  show "map_option current_time (get_by qg_id (qg_id donor)
            (quota_groups (form_valid t user donor acceptor time w)))
          = Some (if time = 0 then current_time donor else quantize2 (current_time donor - time))"
    using d1 assms(2)
    by (simp add: form_valid_def subtract_time_def add_time_def save_quota_group_def Let_def)
  show "map_option current_time (get_by qg_id (qg_id acceptor)
            (quota_groups (form_valid t user donor acceptor time w)))
          = Some (if time = 0 then current_time acceptor
                  else quantize2 (current_time acceptor + time))"
    using a1 assms(3)
    by (simp add: form_valid_def subtract_time_def add_time_def save_quota_group_def Let_def)
  show "transactions (form_valid t user donor acceptor time w) = transactions w @
             [\<lparr>txn_user = user_id user, quota_group_donor = qg_id donor,
               quota_group_acceptor = qg_id acceptor, time_transfer = quantize2 time,
               datetime_stamp = t\<rparr>]"
    by (simp add: form_valid_def subtract_time_def add_time_def save_quota_group_def Let_def)
qed

lemma example_donor:
  "get_by lab_id (user_laboratory operator_ivanov) (laboratories example_world)
     = Some \<lparr>lab_id = 1, quota_group = Some 1\<rparr>"
  "get_by qg_id 1 (quota_groups example_world) = Some metered_group"
  "distinct (map qg_id (quota_groups example_world))"
  by (simp_all add: example_world_def operator_ivanov_def get_by_def metered_group_def
      unlimited_group_def exempt_group_def)

text \<open>
  When the minutes are a multiple of 3, the requested time is the exact sum and has at most
  two places.
\<close>

lemma requested_time_exact:
  assumes "cleaned_minutes post mod 3 = 0" and "cleaned_hours post < 10 ^ 25"
  shows "requested_time post = of_int (cleaned_hours post) + of_int (cleaned_minutes post) / 60"
    and "two_places (requested_time post)"
proof -
  let ?h = "cleaned_hours post" and ?m = "cleaned_minutes post"
  have h0: "0 \<le> ?h" by (simp add: cleaned_hours_def split: option.split)
  have m0: "0 \<le> ?m" "?m \<le> 59" by (simp_all add: cleaned_minutes_def split: option.split)
  obtain j where j: "?m = 3 * j" using assms(1) by (metis mod_eq_0_iff_dvd dvdE)
  have q: "(of_int ?m :: rat) / 60 = of_int (5 * j) / 100" by (simp add: j)
  have tq: "two_places ((of_int ?m :: rat) / 60)" unfolding q two_places_iff by blast
  have "\<bar>(of_int ?m :: rat) / 60\<bar> < 1" using m0 by simp
  then have "\<bar>(of_int ?m :: rat) / 60\<bar> < 10 ^ 26" by simp
  then have d: "decimal_div (of_int ?m) 60 = of_int ?m / 60"
    unfolding decimal_div_def using tq by (rule decimal_round_two_places [rotated])
  have ts: "two_places (of_int ?h + (of_int ?m :: rat) / 60)"
    using tq by (intro two_places_add) simp_all
  have "(of_int ?h :: rat) < 10 ^ 25" using assms(2) by (metis of_int_less_iff of_int_numeral of_int_power)
  then have "\<bar>of_int ?h + (of_int ?m :: rat) / 60\<bar> < 10 ^ 26"
    using h0 m0 by simp
  then have "decimal_add (of_int ?h) (of_int ?m / 60) = of_int ?h + of_int ?m / 60"
    unfolding decimal_add_def using ts by (rule decimal_round_two_places [rotated])
  then show "requested_time post = of_int ?h + of_int ?m / 60"
    by (simp add: requested_time_def d)
  then show "two_places (requested_time post)" using ts by simp
qed

lemma fixture_requested_time:
  "requested_time \<lparr>post_hours = Some 0, post_minutes = Some 10,
      post_quota_group_acceptor = Some 2\<rparr> = 1666666666666666666666666667 / 10 ^ 28"
  "requested_time \<lparr>post_hours = Some 4, post_minutes = Some 30,
      post_quota_group_acceptor = Some 2\<rparr> = 9 / 2"
  "requested_time \<lparr>post_hours = Some 4, post_minutes = Some 30,
      post_quota_group_acceptor = Some 1\<rparr> = 9 / 2"
  "requested_time \<lparr>post_hours = Some 11, post_minutes = Some 0,
      post_quota_group_acceptor = Some 2\<rparr> = 11"
  by code_simp+

text \<open>
  C7, as stated, fails: the claim is that an accepted transfer of \<open>T\<close> takes exactly
  \<open>T\<close> from the donor and gives exactly \<open>T\<close> to the acceptor. The rows store two
  decimal places. A transfer of 0 hours 10 minutes from the group with 10 hours to the group
  with none is accepted with \<open>T\<close> the sixth of an hour at 28 digits; the donor's row is left
  with 9.83, the acceptor's with 0.17 and the transaction row records 0.17: the donor has
  lost 0.17 hours and the acceptor gained 0.17, neither of which is \<open>T\<close>.
\<close>

theorem transfer_ten_minutes_counterexample:
  "requested_time \<lparr>post_hours = Some 0, post_minutes = Some 10,
      post_quota_group_acceptor = Some 2\<rparr> = 1666666666666666666666666667 / 10 ^ 28
   \<and> fst (post_transfer 7 operator_ivanov
        \<lparr>post_hours = Some 0, post_minutes = Some 10, post_quota_group_acceptor = Some 2\<rparr>
        example_world) = Inr []
   \<and> map_option current_time (get_by qg_id 1 (quota_groups example_world)) = Some 10
   \<and> map_option current_time (get_by qg_id 1 (quota_groups (snd (post_transfer 7 operator_ivanov
        \<lparr>post_hours = Some 0, post_minutes = Some 10, post_quota_group_acceptor = Some 2\<rparr>
        example_world)))) = Some (983 / 100)
   \<and> map_option current_time (get_by qg_id 2 (quota_groups example_world)) = Some 0
   \<and> map_option current_time (get_by qg_id 2 (quota_groups (snd (post_transfer 7 operator_ivanov
        \<lparr>post_hours = Some 0, post_minutes = Some 10, post_quota_group_acceptor = Some 2\<rparr>
        example_world)))) = Some (17 / 100)
   \<and> map time_transfer (transactions (snd (post_transfer 7 operator_ivanov
        \<lparr>post_hours = Some 0, post_minutes = Some 10, post_quota_group_acceptor = Some 2\<rparr>
        example_world))) = [17 / 100]
   \<and> (10 :: rat) - 983 / 100 \<noteq> 1666666666666666666666666667 / 10 ^ 28
   \<and> (17 / 100 :: rat) - 0 \<noteq> 1666666666666666666666666667 / 10 ^ 28"
  by code_simp

text \<open>
  C7, amended. A user whose laboratory has the quota group \<open>d\<close> (the donor) posts a
  transfer; \<open>T\<close> is \<open>requested_time post\<close>, the posted hours plus the sixtieth of the
  posted minutes at 28 significant digits. When the acceptor is the donor itself, or the
  donor's \<open>current_time\<close> is less than \<open>T\<close>, the request is rejected with form errors and
  the world is as before: both balances unchanged, no transaction row. When it is accepted,
  the acceptor is another group, \<open>T\<close> is at most the donor's balance, and exactly one
  transaction row has been added; the donor's row holds the balance less \<open>T\<close>, the
  acceptor's the balance plus \<open>T\<close> and the transaction row \<open>T\<close>, each quantised to two
  places (and a transfer of zero leaves both rows as they are). When \<open>T\<close> and the two
  balances have at most two places, the donor's balance has gone down and the acceptor's
  has gone up by exactly \<open>T\<close>, and the row records \<open>T\<close>. \<open>T\<close> has at most two
  places, and is the exact sum of the hours and the sixtieth of the minutes, whenever the
  minutes are a multiple of 3 (and the hours are fewer than \<open>10 ^ 25\<close>).
\<close>

theorem post_transfer_cases:
  assumes "get_by lab_id (user_laboratory user) (laboratories w) = Some l"
    and "quota_group l = Some d"
    and "get_by qg_id d (quota_groups w) = Some donor"
    and "distinct (map qg_id (quota_groups w))"
  shows "(post_quota_group_acceptor post = Some d \<or> current_time donor < requested_time post \<longrightarrow>
            (\<exists>errors. errors \<noteq> [] \<and> post_transfer t user post w = (Inr errors, w)))
       \<and> (\<forall>w'. post_transfer t user post w = (Inr [], w') \<longrightarrow>
            (\<exists>a acceptor. post_quota_group_acceptor post = Some a \<and> a \<noteq> d
               \<and> get_by qg_id a (quota_groups w) = Some acceptor
               \<and> requested_time post \<le> current_time donor
               \<and> map_option current_time (get_by qg_id d (quota_groups w'))
                   = Some (if requested_time post = 0 then current_time donor
                           else quantize2 (current_time donor - requested_time post))
               \<and> map_option current_time (get_by qg_id a (quota_groups w'))
                   = Some (if requested_time post = 0 then current_time acceptor
                           else quantize2 (current_time acceptor + requested_time post))
               \<and> transactions w' = transactions w @
                    [\<lparr>txn_user = user_id user, quota_group_donor = d,
                      quota_group_acceptor = a,
                      time_transfer = quantize2 (requested_time post),
                      datetime_stamp = t\<rparr>]
               \<and> (two_places (requested_time post) \<and> two_places (current_time donor)
                    \<and> two_places (current_time acceptor) \<longrightarrow>
                  map_option current_time (get_by qg_id d (quota_groups w'))
                    = Some (current_time donor - requested_time post)
                  \<and> map_option current_time (get_by qg_id a (quota_groups w'))
                    = Some (current_time acceptor + requested_time post)
                  \<and> map time_transfer (transactions w')
                    = map time_transfer (transactions w) @ [requested_time post])))
       \<and> (cleaned_minutes post mod 3 = 0 \<and> cleaned_hours post < 10 ^ 25 \<longrightarrow>
            requested_time post
              = of_int (cleaned_hours post) + of_int (cleaned_minutes post) / 60
            \<and> two_places (requested_time post))"
proof (intro conjI impI allI)
  {
    assume "cleaned_minutes post mod 3 = 0 \<and> cleaned_hours post < 10 ^ 25"
    then show "requested_time post
                 = of_int (cleaned_hours post) + of_int (cleaned_minutes post) / 60"
      by (intro requested_time_exact(1)) simp_all
  }
  {
    assume "cleaned_minutes post mod 3 = 0 \<and> cleaned_hours post < 10 ^ 25"
    then show "two_places (requested_time post)"
      by (intro requested_time_exact(2)) simp_all
  }
  have dk: "qg_id donor = d" using assms(3) by (rule get_by_Some_key)
  have self_none: "get_by qg_id d (acceptor_queryset donor w) = None"
  proof (cases "get_by qg_id d (acceptor_queryset donor w)")
    case (Some r)
    then have "r \<in> set (acceptor_queryset donor w)" "qg_id r = d"
      using get_by_Some_mem [of qg_id d _ r] get_by_Some_key [of qg_id d _ r] by auto
    then show ?thesis using dk by (simp add: acceptor_queryset_def)
  qed simp
  {
    assume r: "post_quota_group_acceptor post = Some d \<or> current_time donor < requested_time post"
    obtain errors time acc where c: "clean donor post w = (errors, time, acc)"
      by (cases "clean donor post w") auto
    have "errors \<noteq> []"
      using r c self_none by (auto simp: clean_def Let_def split: option.splits if_splits)
    then show "\<exists>errors. errors \<noteq> [] \<and> post_transfer t user post w = (Inr errors, w)"
      using assms(1,2,3) c by (cases acc) (auto simp: post_transfer_def)
  }
  {
    fix w'
    assume ok: "post_transfer t user post w = (Inr [], w')"
    let ?T = "requested_time post"
    obtain errors time acc where c: "clean donor post w = (errors, time, acc)"
      by (cases "clean donor post w") auto
    have tm: "time = ?T" using c by (auto simp: clean_def Let_def)
    from ok assms(1,2,3) c obtain acceptor where acc: "acc = Some acceptor"
      and e: "errors = []" and w': "w' = form_valid t user donor acceptor time w"
      by (cases acc) (auto simp: post_transfer_def clean_def Let_def split: if_splits option.splits)
    from c acc obtain a where pa: "post_quota_group_acceptor post = Some a"
      and ga: "get_by qg_id a (acceptor_queryset donor w) = Some acceptor"
      by (auto simp: clean_def Let_def split: option.splits)
    have ak: "qg_id acceptor = a" using ga by (rule get_by_Some_key)
    have "acceptor \<in> set (acceptor_queryset donor w)" using ga by (rule get_by_Some_mem)
    then have ne: "qg_id donor \<noteq> qg_id acceptor" by (auto simp: acceptor_queryset_def)
    have ga': "get_by qg_id a (quota_groups w) = Some acceptor"
      using get_by_filter_distinct [OF assms(4)] ga by (simp add: acceptor_queryset_def)
    have suff: "?T \<le> current_time donor"
      using c acc e by (auto simp: clean_def Let_def split: option.splits if_splits)
    have rows: "get_by qg_id (qg_id donor) (quota_groups w) = Some donor"
      "get_by qg_id (qg_id acceptor) (quota_groups w) = Some acceptor"
      using assms(3) ga' dk ak by simp_all
    have w'': "w' = form_valid t user donor acceptor ?T w" using w' tm by simp
    have fd: "map_option current_time (get_by qg_id d (quota_groups w'))
                = Some (if ?T = 0 then current_time donor else quantize2 (current_time donor - ?T))"
      unfolding w'' by (rule form_valid_balances(1) [OF ne rows, of t user ?T, unfolded dk])
    have fa: "map_option current_time (get_by qg_id a (quota_groups w'))
                = Some (if ?T = 0 then current_time acceptor
                        else quantize2 (current_time acceptor + ?T))"
      unfolding w'' by (rule form_valid_balances(2) [OF ne rows, of t user ?T, unfolded ak])
    have ft: "transactions w' = transactions w @
                    [\<lparr>txn_user = user_id user, quota_group_donor = d,
                      quota_group_acceptor = a, time_transfer = quantize2 ?T,
                      datetime_stamp = t\<rparr>]"
      unfolding w'' by (rule form_valid_balances(3) [OF ne rows, of t user ?T, unfolded dk ak])
    have ex: "map_option current_time (get_by qg_id d (quota_groups w'))
                = Some (current_time donor - ?T)
              \<and> map_option current_time (get_by qg_id a (quota_groups w'))
                = Some (current_time acceptor + ?T)
              \<and> map time_transfer (transactions w') = map time_transfer (transactions w) @ [?T]"
      if "two_places ?T \<and> two_places (current_time donor) \<and> two_places (current_time acceptor)"
    proof -
      have q: "quantize2 (current_time donor - ?T) = current_time donor - ?T"
        "quantize2 (current_time acceptor + ?T) = current_time acceptor + ?T"
        "quantize2 ?T = ?T"
        using that by (simp_all add: quantize2_two_places two_places_diff two_places_add)
      have d: "(if ?T = 0 then current_time donor else quantize2 (current_time donor - ?T))
                 = current_time donor - ?T"
        using q(1) by simp
      have a: "(if ?T = 0 then current_time acceptor else quantize2 (current_time acceptor + ?T))
                 = current_time acceptor + ?T"
        using q(2) by simp
      have tr: "map time_transfer (transactions w') = map time_transfer (transactions w) @ [?T]"
        unfolding ft using q(3) by simp
      show ?thesis using fd [unfolded d] fa [unfolded a] tr by blast
    qed
    have "a \<noteq> d" using ne dk ak by simp
    then show "\<exists>a acceptor. post_quota_group_acceptor post = Some a \<and> a \<noteq> d
               \<and> get_by qg_id a (quota_groups w) = Some acceptor
               \<and> requested_time post \<le> current_time donor
               \<and> map_option current_time (get_by qg_id d (quota_groups w'))
                   = Some (if requested_time post = 0 then current_time donor
                           else quantize2 (current_time donor - requested_time post))
               \<and> map_option current_time (get_by qg_id a (quota_groups w'))
                   = Some (if requested_time post = 0 then current_time acceptor
                           else quantize2 (current_time acceptor + requested_time post))
               \<and> transactions w' = transactions w @
                    [\<lparr>txn_user = user_id user, quota_group_donor = d,
                      quota_group_acceptor = a,
                      time_transfer = quantize2 (requested_time post),
                      datetime_stamp = t\<rparr>]
               \<and> (two_places (requested_time post) \<and> two_places (current_time donor)
                    \<and> two_places (current_time acceptor) \<longrightarrow>
                  map_option current_time (get_by qg_id d (quota_groups w'))
                    = Some (current_time donor - requested_time post)
                  \<and> map_option current_time (get_by qg_id a (quota_groups w'))
                    = Some (current_time acceptor + requested_time post)
                  \<and> map time_transfer (transactions w')
                    = map time_transfer (transactions w) @ [requested_time post])"
      using pa ga' suff fd fa ft ex by blast
  }
qed

lemma example_transfer_accepted:
  "post_transfer 7 operator_ivanov
     \<lparr>post_hours = Some 4, post_minutes = Some 30, post_quota_group_acceptor = Some 2\<rparr>
     example_world
   = (Inr [], snd (post_transfer 7 operator_ivanov
       \<lparr>post_hours = Some 4, post_minutes = Some 30, post_quota_group_acceptor = Some 2\<rparr>
       example_world))"
proof -
  have "fst (post_transfer 7 operator_ivanov
     \<lparr>post_hours = Some 4, post_minutes = Some 30, post_quota_group_acceptor = Some 2\<rparr>
     example_world) = Inr []"
    by code_simp
  then show ?thesis by (metis prod.collapse)
qed

lemma fixture_two_places: "two_places (9 / 2)"
  by code_simp

text \<open>
  Instances, the donor having 10 hours: a request for 11 hours is rejected, a request to the
  donor itself is rejected, and 4 hours 30 minutes (4.5 hours, a value of two places) to the
  second group leave 5.5 and 4.5 hours and one transaction row of 4.5 hours.
\<close>

theorem post_transfer_cases_witness:
  "current_time metered_group = 10
   \<and> requested_time \<lparr>post_hours = Some 11, post_minutes = Some 0,
        post_quota_group_acceptor = Some 2\<rparr> = 11
   \<and> fst (post_transfer 7 operator_ivanov
        \<lparr>post_hours = Some 11, post_minutes = Some 0, post_quota_group_acceptor = Some 2\<rparr>
        example_world) \<noteq> Inr []
   \<and> snd (post_transfer 7 operator_ivanov
        \<lparr>post_hours = Some 11, post_minutes = Some 0, post_quota_group_acceptor = Some 2\<rparr>
        example_world) = example_world
   \<and> fst (post_transfer 7 operator_ivanov
        \<lparr>post_hours = Some 4, post_minutes = Some 30, post_quota_group_acceptor = Some 1\<rparr>
        example_world) \<noteq> Inr []
   \<and> snd (post_transfer 7 operator_ivanov
        \<lparr>post_hours = Some 4, post_minutes = Some 30, post_quota_group_acceptor = Some 1\<rparr>
        example_world) = example_world
   \<and> requested_time \<lparr>post_hours = Some 4, post_minutes = Some 30,
        post_quota_group_acceptor = Some 2\<rparr> = 9 / 2
   \<and> map_option current_time (get_by qg_id 1 (quota_groups (snd (post_transfer 7 operator_ivanov
        \<lparr>post_hours = Some 4, post_minutes = Some 30, post_quota_group_acceptor = Some 2\<rparr>
        example_world)))) = Some (11 / 2)
   \<and> map_option current_time (get_by qg_id 2 (quota_groups (snd (post_transfer 7 operator_ivanov
        \<lparr>post_hours = Some 4, post_minutes = Some 30, post_quota_group_acceptor = Some 2\<rparr>
        example_world)))) = Some (9 / 2)
   \<and> length (transactions (snd (post_transfer 7 operator_ivanov
        \<lparr>post_hours = Some 4, post_minutes = Some 30, post_quota_group_acceptor = Some 2\<rparr>
        example_world))) = 1
   \<and> map time_transfer (transactions (snd (post_transfer 7 operator_ivanov
        \<lparr>post_hours = Some 4, post_minutes = Some 30, post_quota_group_acceptor = Some 2\<rparr>
        example_world))) = [9 / 2]"
proof -
  let ?big = "\<lparr>post_hours = Some 11, post_minutes = Some 0, post_quota_group_acceptor = Some 2\<rparr>"
  let ?self = "\<lparr>post_hours = Some 4, post_minutes = Some 30, post_quota_group_acceptor = Some 1\<rparr>"
  let ?ok = "\<lparr>post_hours = Some 4, post_minutes = Some 30, post_quota_group_acceptor = Some 2\<rparr>"
  have r: "requested_time ?big = 11" "requested_time ?ok = 9 / 2"
    by (rule fixture_requested_time)+
  have c: "current_time metered_group = 10" "current_time unlimited_group = 0"
    by (simp_all add: metered_group_def unlimited_group_def)
  have u: "get_by qg_id 2 (quota_groups example_world) = Some unlimited_group"
    by (simp add: example_world_def get_by_def metered_group_def unlimited_group_def)
  have t: "transactions example_world = []" by (simp add: example_world_def)
  from post_transfer_cases [OF example_donor(1) _ example_donor(2,3), where post = "?big" and t = 7] r c
  have 1: "fst (post_transfer 7 operator_ivanov ?big example_world) \<noteq> Inr []
           \<and> snd (post_transfer 7 operator_ivanov ?big example_world) = example_world"
    by auto
  from post_transfer_cases [OF example_donor(1) _ example_donor(2,3), where post = "?self" and t = 7]
  have 2: "fst (post_transfer 7 operator_ivanov ?self example_world) \<noteq> Inr []
           \<and> snd (post_transfer 7 operator_ivanov ?self example_world) = example_world"
    by auto
  from post_transfer_cases [OF example_donor(1) _ example_donor(2,3), where post = "?ok" and t = 7]
    example_transfer_accepted r c u t fixture_two_places
  have 3: "map_option current_time (get_by qg_id 1 (quota_groups (snd (post_transfer 7
              operator_ivanov ?ok example_world)))) = Some (11 / 2)
           \<and> map_option current_time (get_by qg_id 2 (quota_groups (snd (post_transfer 7
              operator_ivanov ?ok example_world)))) = Some (9 / 2)
           \<and> length (transactions (snd (post_transfer 7 operator_ivanov ?ok example_world))) = 1
           \<and> map time_transfer (transactions (snd (post_transfer 7 operator_ivanov ?ok
                example_world))) = [9 / 2]"
    by (auto simp del: One_nat_def)
  show ?thesis using 1 2 3 r c by simp
qed

subsection \<open>Gated actions\<close>

text \<open>
  C10, as stated, fails: the claim is that an issue with no active relation is always
  executable. \<open>is_action_allowed\<close> is true of such an issue, but \<open>try_action\<close> then looks up the
  mapped method on the issue, and the class has none of the mapped methods: for the issue
  whose only relation is inactive, the method \<open>chgsp\<close> maps to \<open>dummymethod1\<close>, the lookup
  finds nothing, an error is logged and \<open>try_action\<close> returns \<open>False\<close>. Nothing is
  executed.
\<close>

theorem ungated_issue_not_executed_counterexample:
  "filter rel_is_active (issue_notifications ungated_issue) = []
   \<and> is_action_allowed ungated_issue
   \<and> method_mapping (issue_method ungated_issue) = Some ''dummymethod1''
   \<and> (notification_issue_getattr ''dummymethod1'' :: (unit \<Rightarrow> bool) option) = None
   \<and> try_action notification_issue_getattr ungated_issue = (False, [Error_not_implemented])"
  by (simp add: ungated_issue_def is_action_allowed_def try_action_def run_mapped_method_def
      method_mapping_def notification_issue_getattr_def)

text \<open>
  C10, amended. For every issue with no active relation, \<open>is_action_allowed\<close> is true, and
  \<open>try_action\<close> goes on to the dispatch with no approval in between: the name is looked up
  in \<open>method_mapping\<close> (an unknown action is logged and the result is \<open>False\<close>), the
  attribute of that name is looked up on the issue (a missing one is logged and the result
  is \<open>False\<close>), and the method found is called with the \<open>kwargs\<close> of the issue, the
  result being \<open>True\<close> when it returns and \<open>False\<close>, with the exception logged, when it
  raises. So the issue is executed exactly when its method is mapped to a name, the issue
  has a method of that name, and the call with \<open>kwargs\<close> returns; with the attributes
  of the class as it is in the source, it never is.
\<close>

theorem ungated_issue_allowed:
  assumes "filter rel_is_active (issue_notifications self) = []"
  shows "is_action_allowed self
       \<and> try_action getattr self =
           (case method_mapping (issue_method self) of
              None \<Rightarrow> (False, [Warning_unknown_action])
            | Some method_name \<Rightarrow>
                (case getattr method_name of
                   None \<Rightarrow> (False, [Error_not_implemented])
                 | Some method \<Rightarrow>
                     if method (kwargs self) then (True, []) else (False, [Exception_executing])))
       \<and> (fst (try_action getattr self) \<longleftrightarrow>
            (\<exists>method_name method. method_mapping (issue_method self) = Some method_name
               \<and> getattr method_name = Some method \<and> method (kwargs self)))
       \<and> \<not> fst (try_action notification_issue_getattr self)"
proof -
  have a: "is_action_allowed self" using assms by (simp add: is_action_allowed_def)
  then have t: "try_action g self =
           (case method_mapping (issue_method self) of
              None \<Rightarrow> (False, [Warning_unknown_action])
            | Some method_name \<Rightarrow>
                (case g method_name of
                   None \<Rightarrow> (False, [Error_not_implemented])
                 | Some method \<Rightarrow>
                     if method (kwargs self) then (True, []) else (False, [Exception_executing])))"
    for g :: "string \<Rightarrow> ('a \<Rightarrow> bool) option"
    by (simp add: try_action_def run_mapped_method_def)
  have e: "fst (try_action getattr self) \<longleftrightarrow>
            (\<exists>method_name method. method_mapping (issue_method self) = Some method_name
               \<and> getattr method_name = Some method \<and> method (kwargs self))"
    unfolding t by (auto split: option.splits)
  have n: "\<not> fst (try_action notification_issue_getattr self)"
    unfolding t by (simp add: notification_issue_getattr_def split: option.splits)
  show ?thesis using a t [of getattr] e n by blast
qed

text \<open>
  Instances, on the issue whose only relation is inactive and still has a pending
  notification, and on issues without relations. With a method \<open>dummymethod1\<close> that
  returns, the issue is executed; the method is called with the \<open>kwargs\<close> of the issue: a
  method that returns for the argument 7 and raises for every other one executes the issue
  whose \<open>kwargs\<close> are 7, and on the issue whose \<open>kwargs\<close> are 8 the exception is logged.
  Without the mapped method, as in the source, the error is logged, and an action that is
  not mapped is logged as unknown.
\<close>

theorem ungated_issue_allowed_witness:
  "filter rel_is_active (issue_notifications ungated_issue) = []
   \<and> is_action_allowed ungated_issue
   \<and> try_action (\<lambda>name. if name = ''dummymethod1'' then Some (\<lambda>kw. True) else None)
        ungated_issue = (True, [])
   \<and> try_action (\<lambda>name. if name = ''dummymethod1'' then Some (\<lambda>kw. kw = (7 :: nat)) else None)
        (bare_issue 7) = (True, [])
   \<and> try_action (\<lambda>name. if name = ''dummymethod1'' then Some (\<lambda>kw. kw = (7 :: nat)) else None)
        (bare_issue 8) = (False, [Exception_executing])
   \<and> try_action (\<lambda>name. if name = ''dummymethod2'' then Some (\<lambda>kw. True) else None)
        ungated_issue = (False, [Error_not_implemented])
   \<and> try_action (\<lambda>name. None) ungated_issue = (False, [Error_not_implemented])
   \<and> try_action (\<lambda>name. Some (\<lambda>kw. True)) (ungated_issue\<lparr>issue_method := ''other''\<rparr>)
       = (False, [Warning_unknown_action])"
  using
    ungated_issue_allowed [of ungated_issue
      "\<lambda>name. if name = ''dummymethod1'' then Some (\<lambda>kw. True) else None"]
    ungated_issue_allowed [of "bare_issue 7"
      "\<lambda>name. if name = ''dummymethod1'' then Some (\<lambda>kw. kw = (7 :: nat)) else None"]
    ungated_issue_allowed [of "bare_issue 8"
      "\<lambda>name. if name = ''dummymethod1'' then Some (\<lambda>kw. kw = (7 :: nat)) else None"]
    ungated_issue_allowed [of ungated_issue
      "\<lambda>name. if name = ''dummymethod2'' then Some (\<lambda>kw. True) else None"]
    ungated_issue_allowed [of ungated_issue "\<lambda>name. None"]
    ungated_issue_allowed [of "ungated_issue\<lparr>issue_method := ''other''\<rparr>"
      "\<lambda>name. Some (\<lambda>kw. True)"]
  by (simp add: ungated_issue_def bare_issue_def method_mapping_def)

end
